theory Spec2Isabelle
  imports Main
begin

section \<open>JavaScript strings and numbers\<close>

text \<open>
  A JavaScript string is its sequence of UTF-16 code units. \<open>str\<close> turns an ASCII
  literal into that sequence, so \<open>str ''3+5+8''\<close> is the string \<^verbatim>\<open>"3+5+8"\<close>.
  A number that the code obtains from \<^verbatim>\<open>parseInt\<close> is an \<open>int option\<close>, \<open>None\<close> being
  \<^verbatim>\<open>NaN\<close>; values are exact integers (the rounding of integers beyond \<open>2^53\<close> to a
  double is outside the model). Declared sums, counters and indices are \<open>int\<close>.
\<close>

type_synonym jsstring = "nat list"

definition str :: "string \<Rightarrow> jsstring" where
  "str s = map of_char s"

text \<open>The class \<^verbatim>\<open>\d\<close> of a regular expression: the ASCII digits only.\<close>

definition isDigit :: "nat \<Rightarrow> bool" where
  "isDigit c = (48 \<le> c \<and> c \<le> 57)"

text \<open>
  White space and line terminators, as \<^verbatim>\<open>trim()\<close>, \<^verbatim>\<open>\s\<close> and \<^verbatim>\<open>parseInt\<close> skip them:
  TAB, LF, VT, FF, CR, SP, NBSP, U+1680, U+2000..U+200A, U+2028, U+2029, U+202F, U+205F,
  U+3000, U+FEFF.
\<close>

definition isWhiteSpace :: "nat \<Rightarrow> bool" where
  "isWhiteSpace c =
     (c \<in> set [9, 10, 11, 12, 13, 32, 160, 5760, 8232, 8233, 8239, 8287, 12288, 65279]
      \<or> (8192 \<le> c \<and> c \<le> 8202))"

definition trim :: "jsstring \<Rightarrow> jsstring" where
  "trim s = rev (dropWhile isWhiteSpace (rev (dropWhile isWhiteSpace s)))"

text \<open>\<^verbatim>\<open>s.split(sep)\<close> for a separator of one code unit; \<^verbatim>\<open>"".split("+")\<close> is \<^verbatim>\<open>[""]\<close>.\<close>

fun split :: "nat \<Rightarrow> jsstring \<Rightarrow> jsstring list" where
  "split sep [] = [[]]"
| "split sep (c # cs) =
     (if c = sep then [] # split sep cs
      else (case split sep cs of [] \<Rightarrow> [[c]] | p # ps \<Rightarrow> (c # p) # ps))"

text \<open>\<^verbatim>\<open>parts.join("+")\<close>.\<close>

fun join :: "nat \<Rightarrow> jsstring list \<Rightarrow> jsstring" where
  "join sep [] = []"
| "join sep [p] = p"
| "join sep (p # q # ps) = p @ sep # join sep (q # ps)"

text \<open>
  \<^verbatim>\<open>parseInt(s)\<close> without a radix: leading white space is skipped, one sign is read, a
  \<^verbatim>\<open>0x\<close>/\<^verbatim>\<open>0X\<close> prefix selects radix 16, and the longest prefix of digits of the radix
  is the value; with no such digit the result is \<^verbatim>\<open>NaN\<close>. It never raises.
\<close>

definition radixDigit :: "nat \<Rightarrow> nat \<Rightarrow> nat option" where
  "radixDigit R c =
     (if isDigit c then Some (c - 48)
      else if R = 16 \<and> 97 \<le> c \<and> c \<le> 102 then Some (c - 87)
      else if R = 16 \<and> 65 \<le> c \<and> c \<le> 70 then Some (c - 55)
      else None)"

definition parseDigits :: "nat \<Rightarrow> jsstring \<Rightarrow> nat option" where
  "parseDigits R s =
     (let ds = takeWhile (\<lambda>c. radixDigit R c \<noteq> None) s
      in if ds = [] then None
         else Some (foldl (\<lambda>acc c. acc * R + the (radixDigit R c)) 0 ds))"

fun parseUnsigned :: "jsstring \<Rightarrow> nat option" where
  "parseUnsigned (z # x # rest) =
     (if z = 48 \<and> (x = 120 \<or> x = 88) then parseDigits 16 rest
      else parseDigits 10 (z # x # rest))"
| "parseUnsigned s = parseDigits 10 s"

fun parseSigned :: "jsstring \<Rightarrow> int option" where
  "parseSigned [] = None"
| "parseSigned (c # cs) =
     (if c = 45 then map_option (\<lambda>n. - int n) (parseUnsigned cs)
      else if c = 43 then map_option int (parseUnsigned cs)
      else map_option int (parseUnsigned (c # cs)))"

definition parseInt :: "jsstring \<Rightarrow> int option" where
  "parseInt s = parseSigned (dropWhile isWhiteSpace s)"

text \<open>\<^verbatim>\<open>String(n)\<close> of an integer number, and \<^verbatim>\<open>s.padStart(n, c)\<close> with a one-unit pad.\<close>

fun digitsOf :: "nat \<Rightarrow> jsstring" where
  "digitsOf n = (if n < 10 then [48 + n] else digitsOf (n div 10) @ [48 + n mod 10])"

definition jsString :: "int \<Rightarrow> jsstring" where
  "jsString n = (if n < 0 then 45 # digitsOf (nat (- n)) else digitsOf (nat n))"

definition padStart :: "nat \<Rightarrow> nat \<Rightarrow> jsstring \<Rightarrow> jsstring" where
  "padStart n c s = replicate (n - length s) c @ s"

text \<open>
  The remainder \<^verbatim>\<open>a % b\<close> of two integer numbers with \<open>b \<noteq> 0\<close>: it truncates towards
  zero, so the result has the sign of \<open>a\<close> (\<^verbatim>\<open>-3 % 2\<close> is \<^verbatim>\<open>-1\<close>).
\<close>

definition jsRem :: "int \<Rightarrow> int \<Rightarrow> int" where
  "jsRem a b = sgn a * (\<bar>a\<bar> mod \<bar>b\<bar>)"

text \<open>\<^verbatim>\<open>xs[i]\<close>: \<open>None\<close> is \<^verbatim>\<open>undefined\<close>, which \<^verbatim>\<open>===\<close> equals only itself.\<close>

definition at :: "'a list \<Rightarrow> nat \<Rightarrow> 'a option" where
  "at xs i = (if i < length xs then Some (xs ! i) else None)"

section \<open>The data model (types/index.ts)\<close>

record BaseLotteryData =
  qihao :: jsstring
  opentime :: jsstring
  opennum :: jsstring
  sum_value :: int
  source :: jsstring

record LotteryData = BaseLotteryData +
  is_da :: bool
  is_xiao :: bool
  is_dan :: bool
  is_shuang :: bool
  is_jida :: bool
  is_jixiao :: bool
  combination :: jsstring
  is_baozi :: bool
  is_duizi :: bool
  is_shunzi :: bool
  is_zaliu :: bool
  is_xiaobian :: bool
  is_zhong :: bool
  is_dabian :: bool
  is_bian :: bool
  is_long :: bool
  is_hu :: bool
  is_he :: bool

section \<open>The analyzer (helpers/lottery-analyzer.ts)\<close>

text \<open>The four combination labels: big-odd, small-odd, big-even, small-even.\<close>

definition DA :: jsstring where "DA = [22823]"
definition XIAO :: jsstring where "XIAO = [23567]"
definition DAN :: jsstring where "DAN = [21333]"
definition SHUANG :: jsstring where "SHUANG = [21452]"

definition DA_DAN :: jsstring where "DA_DAN = DA @ DAN"
definition XIAO_DAN :: jsstring where "XIAO_DAN = XIAO @ DAN"
definition DA_SHUANG :: jsstring where "DA_SHUANG = DA @ SHUANG"
definition XIAO_SHUANG :: jsstring where "XIAO_SHUANG = XIAO @ SHUANG"

record SumAnalysis =
  isDa :: bool
  isXiao :: bool
  isDan :: bool
  isShuang :: bool
  isJiDa :: bool
  isJiXiao :: bool
  combination_label :: jsstring
  isXiaoBian :: bool
  isZhong :: bool
  isDaBian :: bool
  isBian :: bool

record PatternAnalysis =
  isBaozi :: bool
  isDuizi :: bool
  isShunzi :: bool
  isZaliu :: bool

record LongHuHeAnalysis =
  isLong :: bool
  isHu :: bool
  isHe :: bool

record LotteryAnalysis =
  sum_analysis :: SumAnalysis
  pattern :: PatternAnalysis
  longHuHe :: LongHuHeAnalysis
  types :: "jsstring list"

definition analyzeSumValue :: "int \<Rightarrow> SumAnalysis" where
  "analyzeSumValue s =
     (let da = (s \<ge> 14); xiao = (s \<le> 13);
          dan = (jsRem s 2 = 1); shuang = (jsRem s 2 = 0);
          xb = (s \<ge> 0 \<and> s \<le> 9); zh = (s \<ge> 10 \<and> s \<le> 17); db = (s \<ge> 18 \<and> s \<le> 27)
      in \<lparr> isDa = da, isXiao = xiao, isDan = dan, isShuang = shuang,
           isJiDa = (s \<ge> 22), isJiXiao = (s \<le> 5),
           combination_label =
             (if da \<and> dan then DA_DAN
              else if xiao \<and> dan then XIAO_DAN
              else if da \<and> shuang then DA_SHUANG
              else XIAO_SHUANG),
           isXiaoBian = xb, isZhong = zh, isDaBian = db, isBian = (xb \<or> db) \<rparr>)"

text \<open>
  \<open>analyzePattern\<close> reads the first three numbers through \<open>at\<close>, so a short list gives
  \<^verbatim>\<open>undefined\<close> as in the source; the comparator sort of integers is the ascending sort,
  and \<^verbatim>\<open>sorted[0] + 1\<close> of a missing element is \<^verbatim>\<open>NaN\<close>, equal to nothing.
\<close>

definition succeeds :: "int option \<Rightarrow> int option \<Rightarrow> bool" where
  "succeeds y x = (case (x, y) of (Some m, Some n) \<Rightarrow> n = m + 1 | _ \<Rightarrow> False)"

definition analyzePattern :: "int list \<Rightarrow> PatternAnalysis" where
  "analyzePattern numbers =
     (let a = at numbers 0; b = at numbers 1; c = at numbers 2;
          baozi = (a = b \<and> b = c);
          duizi = (\<not> baozi \<and> (a = b \<or> b = c \<or> a = c));
          sorted = sort numbers;
          shunzi = (\<not> baozi \<and> \<not> duizi
                    \<and> succeeds (at sorted 1) (at sorted 0) \<and> succeeds (at sorted 2) (at sorted 1))
      in \<lparr> isBaozi = baozi, isDuizi = duizi, isShunzi = shunzi,
           isZaliu = (\<not> baozi \<and> \<not> duizi \<and> \<not> shunzi) \<rparr>)"

definition greater :: "int option \<Rightarrow> int option \<Rightarrow> bool" where
  "greater x y = (case (x, y) of (Some m, Some n) \<Rightarrow> m > n | _ \<Rightarrow> False)"

definition analyzeLongHuHe :: "int list \<Rightarrow> LongHuHeAnalysis" where
  "analyzeLongHuHe numbers =
     (let num1 = at numbers 0; num3 = at numbers 2
      in \<lparr> isLong = greater num1 num3, isHu = greater num3 num1, isHe = (num1 = num3) \<rparr>)"

text \<open>The \<^verbatim>\<open>if (flag) types.push(key)\<close> lines of a collector, in their order.\<close>

definition pushed :: "(bool \<times> string) list \<Rightarrow> jsstring list" where
  "pushed xs = map (\<lambda>(flag, key). str key) (filter fst xs)"

definition collectStatTypes :: "int \<Rightarrow> PatternAnalysis \<Rightarrow> LongHuHeAnalysis \<Rightarrow> jsstring list" where
  "collectStatTypes s p l =
     (let sumAnalysis = analyzeSumValue s
      in pushed
           [(isDa sumAnalysis, ''da''), (isXiao sumAnalysis, ''xiao''),
            (isDan sumAnalysis, ''dan''), (isShuang sumAnalysis, ''shuang''),
            (isDa sumAnalysis \<and> isDan sumAnalysis, ''dd''),
            (isXiao sumAnalysis \<and> isDan sumAnalysis, ''xd''),
            (isDa sumAnalysis \<and> isShuang sumAnalysis, ''ds''),
            (isXiao sumAnalysis \<and> isShuang sumAnalysis, ''xs''),
            (isJiDa sumAnalysis, ''jd''), (isJiXiao sumAnalysis, ''jx''),
            (isBaozi p, ''bz''), (isDuizi p, ''dz''), (isShunzi p, ''sz''), (isZaliu p, ''zl''),
            (isXiaoBian sumAnalysis, ''xb''), (isZhong sumAnalysis, ''zhong''),
            (isDaBian sumAnalysis, ''db''), (isBian sumAnalysis, ''bian''),
            (isLong l, ''long''), (isHu l, ''hu''), (isHe l, ''he'')]
         @ [padStart 2 48 (jsString s)])"

text \<open>
  \<open>analyzeFullLotteryData\<close> parses every \<^verbatim>\<open>+\<close>-separated part with \<open>parseInt\<close>. When a
  part is \<^verbatim>\<open>NaN\<close> the order that the comparator sort leaves is implementation-defined;
  the model then gives \<open>None\<close> (no modelled result). In the writer this cannot happen:
  the number format has been validated before.
\<close>

definition all_numbers :: "int option list \<Rightarrow> int list option" where
  "all_numbers xs = (if list_all (\<lambda>x. x \<noteq> None) xs then Some (map the xs) else None)"

definition analyzeFullLotteryData :: "jsstring \<Rightarrow> int \<Rightarrow> LotteryAnalysis option" where
  "analyzeFullLotteryData num s =
     (case all_numbers (map parseInt (split 43 num)) of
        None \<Rightarrow> None
      | Some numbers \<Rightarrow>
          (let patternAnalysis = analyzePattern numbers;
               longHuHeAnalysis = analyzeLongHuHe numbers
           in Some \<lparr> sum_analysis = analyzeSumValue s,
                     pattern = patternAnalysis,
                     longHuHe = longHuHeAnalysis,
                     types = collectStatTypes s patternAnalysis longHuHeAnalysis \<rparr>))"

text \<open>
  The enriched record that \<^verbatim>\<open>processDataWithLock\<close> builds from the raw draw and its
  analysis (the spread \<^verbatim>\<open>{...data, is_da: analysis.sum.isDa, ...}\<close>).
\<close>

definition enrichedData :: "BaseLotteryData \<Rightarrow> LotteryAnalysis \<Rightarrow> LotteryData" where
  "enrichedData d an =
     \<lparr> qihao = qihao d, opentime = opentime d, opennum = opennum d,
       sum_value = sum_value d, source = source d,
       is_da = isDa (sum_analysis an),
       is_xiao = isXiao (sum_analysis an),
       is_dan = isDan (sum_analysis an),
       is_shuang = isShuang (sum_analysis an),
       is_jida = isJiDa (sum_analysis an),
       is_jixiao = isJiXiao (sum_analysis an),
       combination = combination_label (sum_analysis an),
       is_baozi = isBaozi (pattern an),
       is_duizi = isDuizi (pattern an),
       is_shunzi = isShunzi (pattern an),
       is_zaliu = isZaliu (pattern an),
       is_xiaobian = isXiaoBian (sum_analysis an),
       is_zhong = isZhong (sum_analysis an),
       is_dabian = isDaBian (sum_analysis an),
       is_bian = isBian (sum_analysis an),
       is_long = isLong (longHuHe an),
       is_hu = isHu (longHuHe an),
       is_he = isHe (longHuHe an) \<rparr>"

definition enrich :: "BaseLotteryData \<Rightarrow> LotteryData option" where
  "enrich d = map_option (enrichedData d) (analyzeFullLotteryData (opennum d) (sum_value d))"

text \<open>"Exactly one of the listed flags holds."\<close>

definition exactly_one :: "bool list \<Rightarrow> bool" where
  "exactly_one bs = (length (filter (\<lambda>b. b) bs) = 1)"

text \<open>The string \<^verbatim>\<open>"a+b+c"\<close> of three numbers (the template literal of the sources).\<close>

definition plus3 :: "int \<Rightarrow> int \<Rightarrow> int \<Rightarrow> jsstring" where
  "plus3 a b c = jsString a @ 43 # jsString b @ 43 # jsString c"

section \<open>Errors and store replies\<close>

text \<open>
  A thrown JavaScript error, with the fields that the code inspects: the Prisma or network
  \<^verbatim>\<open>code\<close>, the MySQL \<^verbatim>\<open>errno\<close>, the HTTP \<^verbatim>\<open>response.status\<close> and the \<^verbatim>\<open>message\<close>.
  A call on a store either returns or raises.
\<close>

record js_error =
  err_code :: "jsstring option"
  err_errno :: "int option"
  err_status :: "int option"
  err_message :: jsstring

datatype 'a reply = Returned 'a | Raised js_error

section \<open>The issue tracker (modules/lottery/issue-tracker.ts)\<close>

record IssueTracker =
  latestIssue :: jsstring
  isInitialized :: bool

definition newIssueTracker :: IssueTracker where
  "newIssueTracker = \<lparr> latestIssue = str ''0'', isInitialized = False \<rparr>"

text \<open>
  \<open>initialize\<close> takes the reply of \<^verbatim>\<open>findFirst\<close> (the newest row's issue, or no row). The
  call is inside the \<^verbatim>\<open>try\<close>, the handler only assigns and logs: every path completes.
\<close>

definition initialize :: "jsstring option reply \<Rightarrow> IssueTracker \<Rightarrow> js_error + IssueTracker" where
  "initialize latest t =
     (case latest of
        Returned (Some q) \<Rightarrow> Inr (t\<lparr> latestIssue := q, isInitialized := True \<rparr>)
      | Returned None \<Rightarrow> Inr (t\<lparr> latestIssue := str ''0'', isInitialized := True \<rparr>)
      | Raised e \<Rightarrow> Inr (t\<lparr> latestIssue := str ''0'', isInitialized := True \<rparr>))"

text \<open>
  \<open>isNewIssue\<close>: both \<open>parseInt\<close> calls are inside a \<^verbatim>\<open>try\<close> whose handler returns true,
  but \<open>parseInt\<close> of a string has no raising path, so the handler is not a branch of the
  model. A comparison with \<^verbatim>\<open>NaN\<close> is false.
\<close>

definition isNewIssue :: "IssueTracker \<Rightarrow> jsstring \<Rightarrow> bool" where
  "isNewIssue t q =
     (if \<not> isInitialized t then True
      else (let currentIssueNum = parseInt (latestIssue t); newIssueNum = parseInt q
            in greater newIssueNum currentIssueNum))"

definition updateLatestIssue :: "jsstring \<Rightarrow> IssueTracker \<Rightarrow> IssueTracker" where
  "updateLatestIssue q t =
     (let currentIssueNum = parseInt (latestIssue t); newIssueNum = parseInt q
      in if greater newIssueNum currentIssueNum then t\<lparr> latestIssue := q \<rparr> else t)"

definition getLatestIssue :: "IssueTracker \<Rightarrow> jsstring" where
  "getLatestIssue t = latestIssue t"

definition isReady :: "IssueTracker \<Rightarrow> bool" where
  "isReady t = isInitialized t"

definition reset :: "IssueTracker \<Rightarrow> IssueTracker" where
  "reset t = t\<lparr> latestIssue := str ''0'', isInitialized := False \<rparr>"

section \<open>The prediction verifier (modules/prediction/writer.ts)\<close>

text \<open>
  \<open>OtherType\<close> stands for a run-time value outside the enum, which the \<^verbatim>\<open>default\<close>
  branches of the two functions receive.
\<close>

datatype PredictType = DANSHUANG | DAXIAO | COMBINATION | KILL | OtherType jsstring

fun calculateResultValue :: "PredictType \<Rightarrow> int \<Rightarrow> js_error + jsstring" where
  "calculateResultValue DANSHUANG sumValue = Inr (if jsRem sumValue 2 = 1 then DAN else SHUANG)"
| "calculateResultValue DAXIAO sumValue = Inr (if sumValue \<ge> 14 then DA else XIAO)"
| "calculateResultValue (OtherType t) sumValue =
     Inl \<lparr> err_code = None, err_errno = None, err_status = None,
           err_message = [26410, 30693, 39044, 27979, 31867, 22411, 58, 32] @ t \<rparr>"
| "calculateResultValue _ sumValue =
     (let isDa = (sumValue \<ge> 14); isDan = (jsRem sumValue 2 = 1)
      in Inr (if isDa \<and> isDan then DA_DAN
              else if \<not> isDa \<and> isDan then XIAO_DAN
              else if isDa \<and> \<not> isDan then DA_SHUANG
              else XIAO_SHUANG))"

fun calculateHit :: "PredictType \<Rightarrow> jsstring \<Rightarrow> jsstring \<Rightarrow> bool" where
  "calculateHit DANSHUANG predictValue resultValue = (predictValue = resultValue)"
| "calculateHit DAXIAO predictValue resultValue = (predictValue = resultValue)"
| "calculateHit COMBINATION predictValue resultValue =
     (let predictCombos = map trim (split 44 predictValue)
      in resultValue \<in> set predictCombos)"
| "calculateHit KILL predictValue resultValue = (predictValue \<noteq> resultValue)"
| "calculateHit (OtherType t) predictValue resultValue = False"

text \<open>The grammar's labels of a combo or kill prediction.\<close>

definition combo_labels :: "jsstring list" where
  "combo_labels = [DA_DAN, XIAO_DAN, DA_SHUANG, XIAO_SHUANG]"

section \<open>Regular expressions of the sources\<close>

text \<open>
  The anchored patterns of the sources are sequences of single classes and of \<^verbatim>\<open>class+\<close>
  groups in which a \<^verbatim>\<open>+\<close> group is never followed by something that can start with a
  unit of its own class. On such a sequence the greedy match below is the match.
\<close>

datatype item = One "nat \<Rightarrow> bool" | Many1 "nat \<Rightarrow> bool"

fun matches :: "item list \<Rightarrow> jsstring \<Rightarrow> bool" where
  "matches [] s = (s = [])"
| "matches (One p # its) s = (case s of [] \<Rightarrow> False | c # cs \<Rightarrow> p c \<and> matches its cs)"
| "matches (Many1 p # its) s =
     (case s of [] \<Rightarrow> False | c # cs \<Rightarrow> p c \<and> matches its (dropWhile p cs))"

definition lit :: "nat \<Rightarrow> nat \<Rightarrow> bool" where
  "lit k c = (c = k)"

text \<open>\<^verbatim>\<open>/^\d+X\d+X\d+$/\<close> for a separator class \<open>X\<close>.\<close>

definition three_groups :: "item \<Rightarrow> item list" where
  "three_groups sep = [Many1 isDigit, sep, Many1 isDigit, sep, Many1 isDigit]"

definition DD :: "item list" where
  "DD = [One isDigit, One isDigit]"

definition SHORT_FORMAT :: "item list" where
  "SHORT_FORMAT = DD @ [One (lit 45)] @ DD @ [One isWhiteSpace] @ DD @ [One (lit 58)] @ DD
                    @ [One (lit 58)] @ DD"

definition FULL_FORMAT :: "item list" where
  "FULL_FORMAT = DD @ DD @ [One (lit 45)] @ SHORT_FORMAT"

text \<open>\<^verbatim>\<open>s.replace(/,/g, "+")\<close> and \<^verbatim>\<open>s.replace(/\s+/g, "+")\<close>.\<close>

definition replaceAll :: "nat \<Rightarrow> nat \<Rightarrow> jsstring \<Rightarrow> jsstring" where
  "replaceAll k r s = map (\<lambda>c. if c = k then r else c) s"

function replaceRuns :: "(nat \<Rightarrow> bool) \<Rightarrow> nat \<Rightarrow> jsstring \<Rightarrow> jsstring" where
  "replaceRuns p r [] = []"
| "replaceRuns p r (c # cs) =
     (if p c then r # replaceRuns p r (dropWhile p cs) else c # replaceRuns p r cs)"
  by pat_completeness auto
termination
  by (relation "measure (\<lambda>(p, r, s). length s)")
     (auto simp: length_dropWhile_le less_Suc_eq_le)

text \<open>
  \<^verbatim>\<open>s.split(/[^\d]+/)\<close>: the pieces between the maximal runs of the separator class,
  empty pieces at the ends included.
\<close>

function splitRuns :: "(nat \<Rightarrow> bool) \<Rightarrow> jsstring \<Rightarrow> jsstring list" where
  "splitRuns p [] = [[]]"
| "splitRuns p (c # cs) =
     (if p c then [] # splitRuns p (dropWhile p cs)
      else (case splitRuns p cs of [] \<Rightarrow> [[c]] | q # qs \<Rightarrow> (c # q) # qs))"
  by pat_completeness auto
termination
  by (relation "measure (\<lambda>(p, s). length s)")
     (auto simp: length_dropWhile_le less_Suc_eq_le)

text \<open>
  \<^verbatim>\<open>s.match(re)\<close> for a pattern without anchors and without the \<^verbatim>\<open>g\<close> flag: the match at
  the leftmost position that has one, as the texts of its items in their order; \<open>None\<close>
  is \<^verbatim>\<open>null\<close>. \<open>capture\<close> is the match at the start of the string.
\<close>

fun capture :: "item list \<Rightarrow> jsstring \<Rightarrow> jsstring list option" where
  "capture [] s = Some []"
| "capture (One p # its) s =
     (case s of [] \<Rightarrow> None
      | c # cs \<Rightarrow> if p c then map_option ((#) [c]) (capture its cs) else None)"
| "capture (Many1 p # its) s =
     (if takeWhile p s = [] then None
      else map_option ((#) (takeWhile p s)) (capture its (dropWhile p s)))"

fun search :: "item list \<Rightarrow> jsstring \<Rightarrow> jsstring list option" where
  "search its [] = capture its []"
| "search its (c # cs) =
     (case capture its (c # cs) of Some groups \<Rightarrow> Some groups | None \<Rightarrow> search its cs)"

section \<open>The validators (helpers/validator.ts, modules/lottery/validator.ts)\<close>

text \<open>
  A validation result is \<open>Valid\<close> or \<open>Invalid\<close> with the reason; the reason stands for
  the message text, whose interpolated values it carries.
\<close>

datatype validation_error =
    SumMismatch "int option" "int option" "int option" "int option" int
  | IssueFormat jsstring
  | TimeFormat jsstring
  | OpennumFormat jsstring
  | OpennumRange jsstring
  | OpennumUnparsable

datatype ValidationResult = Valid | Invalid validation_error

definition valid :: "ValidationResult \<Rightarrow> bool" where
  "valid r = (r = Valid)"

text \<open>\<^verbatim>\<open>a + b\<close> of two numbers, \<^verbatim>\<open>NaN\<close> if either is.\<close>

definition add :: "int option \<Rightarrow> int option \<Rightarrow> int option" where
  "add x y = (case (x, y) of (Some m, Some n) \<Rightarrow> Some (m + n) | _ \<Rightarrow> None)"

definition validateSum :: "int option \<Rightarrow> int option \<Rightarrow> int option \<Rightarrow> int \<Rightarrow> ValidationResult" where
  "validateSum a b c s =
     (let calculatedSum = add (add a b) c
      in if calculatedSum \<noteq> Some s then Invalid (SumMismatch a b c calculatedSum s) else Valid)"

definition validateIssue :: "jsstring \<Rightarrow> ValidationResult" where
  "validateIssue issue =
     (if \<not> matches (replicate 7 (One isDigit)) issue then Invalid (IssueFormat issue) else Valid)"

definition validateTime :: "jsstring \<Rightarrow> ValidationResult" where
  "validateTime timeStr =
     (let isValidFormat = (matches SHORT_FORMAT timeStr \<or> matches FULL_FORMAT timeStr)
      in if \<not> isValidFormat then Invalid (TimeFormat timeStr) else Valid)"

definition isIssueIncreasing :: "jsstring \<Rightarrow> jsstring \<Rightarrow> bool" where
  "isIssueIncreasing currentIssue previousIssue =
     greater (parseInt currentIssue) (parseInt previousIssue)"

definition parseNumbersFromOpennum :: "jsstring \<Rightarrow> int option list" where
  "parseNumbersFromOpennum num = map parseInt (split 43 num)"

text \<open>The loop over the numbers returns at the first one outside 0..9; \<^verbatim>\<open>NaN\<close> is not outside.\<close>

definition validateNumbersRange :: "int option list \<Rightarrow> jsstring \<Rightarrow> ValidationResult" where
  "validateNumbersRange numbers num =
     (if list_ex (\<lambda>n. greater (Some 0) n \<or> greater n (Some 9)) numbers
      then Invalid (OpennumRange num) else Valid)"

definition validateOpennum :: "jsstring \<Rightarrow> ValidationResult" where
  "validateOpennum num =
     (if \<not> matches (three_groups (One (lit 43))) num then Invalid (OpennumFormat num)
      else (let numbers = parseNumbersFromOpennum num;
                rangeValidation = validateNumbersRange numbers num
            in if \<not> valid rangeValidation then rangeValidation else Valid))"

definition parseOpennum ::
  "jsstring \<Rightarrow> (int option \<times> int option \<times> int option \<times> int option) option" where
  "parseOpennum num =
     (case map parseInt (split 43 num) of
        [a, b, c] \<Rightarrow> Some (a, b, c, add (add a b) c)
      | _ \<Rightarrow> None)"

definition validateDataSum :: "jsstring \<Rightarrow> int \<Rightarrow> ValidationResult" where
  "validateDataSum num sumValue =
     (case parseOpennum num of
        None \<Rightarrow> Invalid OpennumUnparsable
      | Some (a, b, c, s) \<Rightarrow> validateSum a b c sumValue)"

text \<open>
  \<open>checkIssueIncrement\<close> gets the last-issue pointer that \<^verbatim>\<open>getLastIssue\<close> returned
  (\<open>None\<close> is \<^verbatim>\<open>null\<close>; the empty string is falsy too) and only logs: its result is the
  list of warnings written.
\<close>

datatype warning = IssueNotIncreasing jsstring jsstring

definition checkIssueIncrement :: "jsstring option \<Rightarrow> jsstring \<Rightarrow> warning list" where
  "checkIssueIncrement lastIssue currentIssue =
     (case lastIssue of
        None \<Rightarrow> []
      | Some l \<Rightarrow> if l \<noteq> [] \<and> \<not> isIssueIncreasing currentIssue l
                  then [IssueNotIncreasing currentIssue l] else [])"

definition validateLotteryData ::
  "jsstring option \<Rightarrow> 'a BaseLotteryData_scheme \<Rightarrow> ValidationResult \<times> warning list" where
  "validateLotteryData lastIssue d =
     (let issueValidation = validateIssue (qihao d) in
      if \<not> valid issueValidation then (issueValidation, []) else
      let opennumValidation = validateOpennum (opennum d) in
      if \<not> valid opennumValidation then (opennumValidation, []) else
      let timeValidation = validateTime (opentime d) in
      if \<not> valid timeValidation then (timeValidation, []) else
      let sumValidation = validateDataSum (opennum d) (sum_value d) in
      if \<not> valid sumValidation then (sumValidation, []) else
      (Valid, checkIssueIncrement lastIssue (qihao d)))"

text \<open>The digit sum of a string, in the words of the specification: the sum of its digits.\<close>

definition digit_sum :: "jsstring \<Rightarrow> int" where
  "digit_sum s = (\<Sum>c\<leftarrow>filter isDigit s. int (c - 48))"

section \<open>The universal parser's number normalization (helpers/parser.ts)\<close>

text \<open>
  \<open>normalizeNumbers\<close> takes \<^verbatim>\<open>String(numbers)\<close>, that is the string itself when the field
  is a string.
\<close>

definition normalizeNumbers :: "jsstring \<Rightarrow> jsstring option" where
  "normalizeNumbers numbers =
     (let s = trim numbers in
      if matches (three_groups (One (lit 43))) s then Some s
      else if matches (three_groups (One (lit 44))) s then Some (replaceAll 44 43 s)
      else if matches (three_groups (Many1 isWhiteSpace)) s then Some (replaceRuns isWhiteSpace 43 s)
      else if matches [One isDigit, One isDigit, One isDigit] s
        then Some [s ! 0, 43, s ! 1, 43, s ! 2]
      else (let parts = filter (\<lambda>p. length p > 0) (splitRuns (\<lambda>c. \<not> isDigit c) s)
            in if length parts = 3 \<and> list_all (matches [Many1 isDigit]) parts
               then Some (join 43 parts) else None))"

section \<open>The keno source (modules/fetcher/sources/playnow-keno.ts)\<close>

text \<open>
  The parser receives a parsed JSON value. An object is the list of its own properties,
  each name once. A number is a double: \<open>JNum n\<close> is the number \<open>n\<close> when \<open>n\<close> is a safe
  integer, one from \<open>-(2^53 - 1)\<close> to \<open>2^53 - 1\<close>, which a double holds exactly. With any
  other \<open>n\<close> it stands for a number that is no safe integer (a fraction, or a magnitude
  of \<open>2^53\<close> or more), and what the source computes from such a number is not modelled.
  The sign of a zero is not represented: \<^verbatim>\<open>-0\<close> is falsy, is printed and is added as \<^verbatim>\<open>0\<close> is.
\<close>

datatype json =
    JNull
  | JBool bool
  | JNum int
  | JStr jsstring
  | JArr "json list"
  | JObj "(jsstring \<times> json) list"

definition MAX_SAFE_INTEGER :: int where
  "MAX_SAFE_INTEGER = 2 ^ 53 - 1"

definition safe :: "int \<Rightarrow> bool" where
  "safe n = (- MAX_SAFE_INTEGER \<le> n \<and> n \<le> MAX_SAFE_INTEGER)"

text \<open>
  What an expression of the source does: it gives a value, it throws (a \<^verbatim>\<open>TypeError\<close>), or
  it gives a value that the model does not compute, \<open>Opaque\<close>. An opaque result is a
  value, never a throw.
\<close>

datatype 'a outcome = Gives 'a | Throws | Opaque

text \<open>\<^verbatim>\<open>!v\<close> is false on a truthy value: not \<^verbatim>\<open>null\<close>, \<^verbatim>\<open>false\<close>, \<^verbatim>\<open>0\<close> or \<^verbatim>\<open>""\<close>.\<close>

fun truthy :: "json \<Rightarrow> bool" where
  "truthy JNull = False"
| "truthy (JBool b) = b"
| "truthy (JNum n) = (n \<noteq> 0)"
| "truthy (JStr s) = (s \<noteq> [])"
| "truthy (JArr xs) = True"
| "truthy (JObj kvs) = True"

text \<open>
  \<^verbatim>\<open>String(v)\<close> and \<^verbatim>\<open>`${v}`\<close>. An object is converted by the \<^verbatim>\<open>toString\<close> that it inherits,
  unless it has an own property of that name: a parsed value is no function, neither it
  nor \<^verbatim>\<open>valueOf\<close> gives a primitive, and the conversion throws. An array joins the
  conversions of its elements with a comma, \<^verbatim>\<open>null\<close> as the empty string, and throws
  when one of them does.
\<close>

definition joined :: "jsstring outcome list \<Rightarrow> jsstring outcome" where
  "joined ps =
     (if Throws \<in> set ps then Throws
      else if Opaque \<in> set ps then Opaque
      else Gives (join 44 (map (\<lambda>p. case p of Gives s \<Rightarrow> s | _ \<Rightarrow> []) ps)))"

fun toStr :: "json \<Rightarrow> jsstring outcome" where
  "toStr JNull = Gives (str ''null'')"
| "toStr (JBool b) = Gives (if b then str ''true'' else str ''false'')"
| "toStr (JNum n) = (if safe n then Gives (jsString n) else Opaque)"
| "toStr (JStr s) = Gives s"
| "toStr (JArr xs) = joined (map (\<lambda>x. if x = JNull then Gives [] else toStr x) xs)"
| "toStr (JObj kvs) =
     (if str ''toString'' \<in> set (map fst kvs) then Throws else Gives (str ''[object Object]''))"

text \<open>
  \<^verbatim>\<open>v.name\<close> on a value other than \<^verbatim>\<open>null\<close>: the property of an object, \<^verbatim>\<open>undefined\<close>
  (\<open>None\<close>) when it is missing or when \<open>v\<close> is not an object. An \<^verbatim>\<open>undefined\<close> is falsy.
\<close>

definition getProp :: "json \<Rightarrow> jsstring \<Rightarrow> json option" where
  "getProp v key = (case v of JObj kvs \<Rightarrow> map_of kvs key | _ \<Rightarrow> None)"

definition falsy :: "json option \<Rightarrow> bool" where
  "falsy v = (case v of None \<Rightarrow> True | Some x \<Rightarrow> \<not> truthy x)"

text \<open>
  The sum \<^verbatim>\<open>nums[i] + nums[j] + ...\<close> over six indices of a 20-element array, from left to
  right. Every operand is converted to a primitive, which throws where \<^verbatim>\<open>String\<close> throws.
  On safe integers whose partial sums are safe integers the sum of the doubles is the
  integer sum. Any other sum is a value that is not modelled: strings are concatenated,
  \<^verbatim>\<open>null\<close> and booleans are coerced, a sum beyond \<open>2^53\<close> is rounded.
\<close>

definition asNumber :: "json \<Rightarrow> int option" where
  "asNumber v = (case v of JNum n \<Rightarrow> if safe n then Some n else None | _ \<Rightarrow> None)"

fun addExact :: "int \<Rightarrow> int list \<Rightarrow> int option" where
  "addExact acc [] = Some acc"
| "addExact acc (n # ns) = (if safe (acc + n) then addExact (acc + n) ns else None)"

definition sumAt :: "json list \<Rightarrow> nat list \<Rightarrow> int outcome" where
  "sumAt nums idx =
     (let operands = map (\<lambda>i. nums ! i) idx
      in if list_ex (\<lambda>v. toStr v = Throws) operands then Throws
         else if list_all (\<lambda>v. asNumber v \<noteq> None) operands
         then (case map (\<lambda>v. the (asNumber v)) operands of
                 [] \<Rightarrow> Opaque
               | n # ns \<Rightarrow> (case addExact n ns of Some s \<Rightarrow> Gives s | None \<Rightarrow> Opaque))
         else Opaque)"

text \<open>
  The two patterns of \<open>normalizeKenoTime\<close>, \<^verbatim>\<open>/(\w+)\s+(\d+),\s+(\d+)/\<close> and
  \<^verbatim>\<open>/(\d+):(\d+):(\d+)\s+(AM|PM)/\<close>, as sequences of items; \<^verbatim>\<open>(AM|PM)\<close> is one of \<^verbatim>\<open>A\<close>
  and \<^verbatim>\<open>P\<close> followed by \<^verbatim>\<open>M\<close>.
\<close>

definition isWord :: "nat \<Rightarrow> bool" where
  "isWord c = (isDigit c \<or> (65 \<le> c \<and> c \<le> 90) \<or> c = 95 \<or> (97 \<le> c \<and> c \<le> 122))"

definition DATE_PATTERN :: "item list" where
  "DATE_PATTERN = [Many1 isWord, Many1 isWhiteSpace, Many1 isDigit, One (lit 44),
                   Many1 isWhiteSpace, Many1 isDigit]"

definition TIME_PATTERN :: "item list" where
  "TIME_PATTERN = [Many1 isDigit, One (lit 58), Many1 isDigit, One (lit 58), Many1 isDigit,
                   Many1 isWhiteSpace, One (\<lambda>c. c = 65 \<or> c = 80), One (lit 77)]"

definition monthMap :: "(jsstring \<times> jsstring) list" where
  "monthMap =
     [(str ''Jan'', str ''01''), (str ''Feb'', str ''02''), (str ''Mar'', str ''03''),
      (str ''Apr'', str ''04''), (str ''May'', str ''05''), (str ''Jun'', str ''06''),
      (str ''Jul'', str ''07''), (str ''Aug'', str ''08''), (str ''Sep'', str ''09''),
      (str ''Oct'', str ''10''), (str ''Nov'', str ''11''), (str ''Dec'', str ''12'')]"

text \<open>
  The names that the object literal \<^verbatim>\<open>monthMap\<close> inherits from \<^verbatim>\<open>Object.prototype\<close>. Under
  such a name \<^verbatim>\<open>monthMap[name]\<close> is a function or an object, which is truthy and is put
  into the result as a text that depends on the engine.
\<close>

definition OBJECT_PROTOTYPE :: "jsstring list" where
  "OBJECT_PROTOTYPE =
     map str [''constructor'', ''hasOwnProperty'', ''isPrototypeOf'', ''propertyIsEnumerable'',
              ''toLocaleString'', ''toString'', ''valueOf'', ''__proto__'',
              ''__defineGetter__'', ''__defineSetter__'', ''__lookupGetter__'',
              ''__lookupSetter__'']"

text \<open>\<^verbatim>\<open>monthMap[name] || '01'\<close>.\<close>

definition monthOf :: "jsstring \<Rightarrow> jsstring outcome" where
  "monthOf name =
     (case map_of monthMap name of
        Some month \<Rightarrow> Gives month
      | None \<Rightarrow> if name \<in> set OBJECT_PROTOTYPE then Opaque else Gives (str ''01''))"

text \<open>\<^verbatim>\<open>`${dateStr} ${timeStr}`\<close>, the result without a date match and of the handler.\<close>

definition rawTime :: "json \<Rightarrow> json \<Rightarrow> jsstring outcome" where
  "rawTime dateStr timeStr =
     (if toStr dateStr = Throws \<or> toStr timeStr = Throws then Throws
      else (case (toStr dateStr, toStr timeStr) of
              (Gives d, Gives t) \<Rightarrow> Gives (d @ 32 # t)
            | _ \<Rightarrow> Opaque))"

text \<open>
  \<open>normalizeKenoTime\<close>. Only a string has \<^verbatim>\<open>match\<close>: on another value the call throws
  inside the \<^verbatim>\<open>try\<close>, and the handler returns the raw format, whose conversion may throw
  again, out of the function. On strings nothing throws. The hour is a double: it is
  modelled when it is a safe integer.
\<close>

definition normalizeKenoTime :: "json \<Rightarrow> json \<Rightarrow> jsstring outcome" where
  "normalizeKenoTime dateStr timeStr =
     (case dateStr of
        JStr d \<Rightarrow>
          (case search DATE_PATTERN d of
             None \<Rightarrow> rawTime dateStr timeStr
           | Some dateParts \<Rightarrow>
               (let month = monthOf (dateParts ! 0);
                    day = padStart 2 48 (dateParts ! 2);
                    year = dateParts ! 5
                in case timeStr of
                     JStr t \<Rightarrow>
                       (case month of
                          Gives mm \<Rightarrow>
                            (case search TIME_PATTERN t of
                               None \<Rightarrow> Gives (year @ 45 # mm @ 45 # day @ 32 # t)
                             | Some timeParts \<Rightarrow>
                                 (case parseInt (timeParts ! 0) of
                                    None \<Rightarrow> Opaque
                                  | Some h \<Rightarrow>
                                      (let minute = timeParts ! 2;
                                           second = timeParts ! 4;
                                           period = timeParts ! 6 @ timeParts ! 7;
                                           hour = (if period = str ''PM'' \<and> h \<noteq> 12 then h + 12
                                                   else if period = str ''AM'' \<and> h = 12 then 0
                                                   else h);
                                           hourStr = padStart 2 48 (jsString hour)
                                       in if safe h \<and> safe hour
                                          then Gives (year @ 45 # mm @ 45 # day @ 32 # hourStr
                                                        @ 58 # minute @ 58 # second)
                                          else Opaque)))
                        | _ \<Rightarrow> Opaque)
                   | _ \<Rightarrow> rawTime dateStr timeStr))
      | _ \<Rightarrow> rawTime dateStr timeStr)"

text \<open>
  The result of \<open>parseKenoData\<close>: \<^verbatim>\<open>null\<close>, the record, or \<open>ParsedCoerced\<close> for a record
  that the source returns but whose fields the model does not compute (an element it adds
  is no safe integer, or a conversion is opaque). Whatever throws inside the \<^verbatim>\<open>try\<close> ends
  in the handler, which returns \<^verbatim>\<open>null\<close>; reading a property of \<^verbatim>\<open>null\<close> throws.
\<close>

datatype keno_result = Null | Parsed BaseLotteryData | ParsedCoerced

definition parseKenoData :: "json \<Rightarrow> keno_result" where
  "parseKenoData data =
     (case data of
        JArr (kenoData # rest) \<Rightarrow>
          if kenoData = JNull then Null
          else if falsy (getProp kenoData (str ''drawNbr'')) \<or> falsy (getProp kenoData (str ''drawDate''))
                  \<or> falsy (getProp kenoData (str ''drawTime''))
                  \<or> falsy (getProp kenoData (str ''drawNbrs''))
          then Null
          else (case getProp kenoData (str ''drawNbrs'') of
                  Some (JArr nums) \<Rightarrow>
                    if length nums \<noteq> 20 then Null
                    else (let s1 = sumAt nums [1, 4, 7, 10, 13, 16];
                              s2 = sumAt nums [2, 5, 8, 11, 14, 17];
                              s3 = sumAt nums [3, 6, 9, 12, 15, 18];
                              opentime = normalizeKenoTime
                                           (the (getProp kenoData (str ''drawDate'')))
                                           (the (getProp kenoData (str ''drawTime'')));
                              qihao = toStr (the (getProp kenoData (str ''drawNbr'')))
                          in if s1 = Throws \<or> s2 = Throws \<or> s3 = Throws
                                \<or> opentime = Throws \<or> qihao = Throws
                             then Null
                             else (case (s1, s2, s3, opentime, qihao) of
                                     (Gives n1, Gives n2, Gives n3, Gives time, Gives issue) \<Rightarrow>
                                       (let num1 = jsRem n1 10; num2 = jsRem n2 10;
                                            num3 = jsRem n3 10;
                                            sum = num1 + num2 + num3
                                        in Parsed \<lparr> qihao = issue,
                                                    opentime = time,
                                                    opennum = plus3 num1 num2 num3,
                                                    sum_value = sum,
                                                    source = str ''playnow-keno'' \<rparr>)
                                   | _ \<Rightarrow> ParsedCoerced))
                | _ \<Rightarrow> Null)
      | _ \<Rightarrow> Null)"

text \<open>
  The shape that the parser accepts: a non-empty array whose first element is an object
  with truthy \<^verbatim>\<open>drawNbr\<close>, \<^verbatim>\<open>drawDate\<close> and \<^verbatim>\<open>drawTime\<close> and an array \<^verbatim>\<open>drawNbrs\<close> of
  20 elements.
\<close>

definition keno_shape :: "json \<Rightarrow> bool" where
  "keno_shape data =
     (case data of
        JArr (JObj kvs # rest) \<Rightarrow>
          (case (map_of kvs (str ''drawNbr''), map_of kvs (str ''drawDate''),
                 map_of kvs (str ''drawTime''), map_of kvs (str ''drawNbrs'')) of
             (Some nbr, Some date, Some time, Some (JArr nums)) \<Rightarrow>
               truthy nbr \<and> truthy date \<and> truthy time \<and> length nums = 20
           | _ \<Rightarrow> False)
      | _ \<Rightarrow> False)"

text \<open>A draw of the feed, with the draw number \<open>n\<close> and the numbers \<open>ns\<close>.\<close>

definition keno_draw :: "json \<Rightarrow> json list \<Rightarrow> json" where
  "keno_draw n ns =
     JArr [JObj [(str ''drawNbr'', n), (str ''drawDate'', JStr (str ''Feb 8, 2026'')),
                 (str ''drawTime'', JStr (str ''08:25:00 PM'')), (str ''drawNbrs'', JArr ns),
                 (str ''drawBonus'', JNum 1)]]"

section \<open>Statistic types (config/stat-types.ts)\<close>

definition BASE_STAT_TYPES :: "jsstring list" where
  "BASE_STAT_TYPES =
     [str ''da'', str ''xiao'', str ''dan'', str ''shuang'',
      str ''dd'', str ''xd'', str ''ds'', str ''xs'',
      str ''jd'', str ''jx'',
      str ''dz'', str ''sz'', str ''bz'', str ''zl'',
      str ''xb'', str ''zhong'', str ''db'', str ''bian'',
      str ''long'', str ''hu'', str ''he'']"

definition getSumValueTypes :: "jsstring list" where
  "getSumValueTypes = map (\<lambda>i. padStart 2 48 (jsString (int i))) [0..<28]"

definition getAllStatTypes :: "jsstring list" where
  "getAllStatTypes = BASE_STAT_TYPES @ getSumValueTypes"

text \<open>
  A statistics object or table: the list of its keys with their values, each key once.
  \<open>assign\<close> is \<^verbatim>\<open>obj[k] = v\<close> and the effect of an upsert of a row on a table
  with a unique key: the entry is replaced where it is, or added at the end.
\<close>

type_synonym stats = "(jsstring \<times> int) list"

fun assign :: "jsstring \<Rightarrow> int \<Rightarrow> stats \<Rightarrow> stats" where
  "assign k v [] = [(k, v)]"
| "assign k v ((k', v') # rest) =
     (if k' = k then (k, v) # rest else (k', v') # assign k v rest)"

definition createEmptyStatObject :: stats where
  "createEmptyStatObject =
     foldl (\<lambda>st t. assign t 0 st) (foldl (\<lambda>st t. assign t 0 st) [] BASE_STAT_TYPES)
       getSumValueTypes"

section \<open>Hit types of an enriched draw (helpers/lottery-analyzer.ts)\<close>

definition collectHitTypes :: "'a LotteryData_scheme \<Rightarrow> jsstring list" where
  "collectHitTypes d =
     pushed
       [(is_da d, ''da''), (is_xiao d, ''xiao''),
        (is_dan d, ''dan''), (is_shuang d, ''shuang''),
        (is_da d \<and> is_dan d, ''dd''), (is_xiao d \<and> is_dan d, ''xd''),
        (is_da d \<and> is_shuang d, ''ds''), (is_xiao d \<and> is_shuang d, ''xs''),
        (is_jida d, ''jd''), (is_jixiao d, ''jx''),
        (is_baozi d, ''bz''), (is_duizi d, ''dz''), (is_shunzi d, ''sz''), (is_zaliu d, ''zl''),
        (is_xiaobian d, ''xb''), (is_zhong d, ''zhong''), (is_dabian d, ''db''), (is_bian d, ''bian''),
        (is_long d, ''long''), (is_hu d, ''hu''), (is_he d, ''he'')]
     @ [padStart 2 48 (jsString (sum_value d))]"

section \<open>The omission engine (services/omission-data.ts)\<close>

text \<open>
  The engine reads and writes the table \<^verbatim>\<open>omission_data\<close>, one row per type with its
  count, and for the bootstrap it reads the committed draws, newest first. Both are
  arguments of the model: \<open>rows\<close> is the result of the query on \<^verbatim>\<open>latest_lottery_data\<close>
  ordered by the opening time, descending, and a read sees what has been written (the
  read and the write client address one database). The store calls are taken to succeed.
\<close>

text \<open>
  One draw of the scan, at the index \<open>idx\<close>: the tests of the loop body in their order.
  A type that still has the value \<open>-1\<close> and that the draw holds gets the index and joins
  the found set. The sum key is tested first and needs no flag.
\<close>

definition scanChecks :: "'a LotteryData_scheme \<Rightarrow> (jsstring \<times> bool) list" where
  "scanChecks r =
     [(padStart 2 48 (jsString (sum_value r)), True),
      (str ''da'', is_da r), (str ''xiao'', is_xiao r),
      (str ''dan'', is_dan r), (str ''shuang'', is_shuang r),
      (str ''dd'', is_da r \<and> is_dan r), (str ''xd'', is_xiao r \<and> is_dan r),
      (str ''ds'', is_da r \<and> is_shuang r), (str ''xs'', is_xiao r \<and> is_shuang r),
      (str ''jd'', is_jida r), (str ''jx'', is_jixiao r),
      (str ''bz'', is_baozi r), (str ''dz'', is_duizi r),
      (str ''sz'', is_shunzi r), (str ''zl'', is_zaliu r),
      (str ''xb'', is_xiaobian r), (str ''zhong'', is_zhong r),
      (str ''db'', is_dabian r), (str ''bian'', is_bian r),
      (str ''long'', is_long r), (str ''hu'', is_hu r), (str ''he'', is_he r)]"

definition scanRecord ::
  "int \<Rightarrow> 'a LotteryData_scheme \<Rightarrow> stats \<times> jsstring list \<Rightarrow> stats \<times> jsstring list" where
  "scanRecord idx r st =
     foldl (\<lambda>(yilou, foundTypes) (k, held).
              if map_of yilou k = Some (- 1) \<and> held
              then (assign k idx yilou, List.insert k foundTypes)
              else (yilou, foundTypes))
       st (scanChecks r)"

definition scanBatch ::
  "nat \<Rightarrow> 'a LotteryData_scheme list \<Rightarrow> stats \<times> jsstring list \<Rightarrow> stats \<times> jsstring list" where
  "scanBatch offset batch st =
     foldl (\<lambda>s (i, r). scanRecord (int (offset + i)) r s) st (zip [0..<length batch] batch)"

definition BATCH_SIZE :: nat where "BATCH_SIZE = 500"
definition MAX_RECORDS :: nat where "MAX_RECORDS = 10000"

text \<open>
  The \<^verbatim>\<open>while\<close> loop over the batches, from the current offset: it ends at the cap, when
  every type is found, or at an empty batch. The offset grows with every batch.
\<close>

function scanFrom ::
  "'a LotteryData_scheme list \<Rightarrow> nat \<Rightarrow> stats \<times> jsstring list
     \<Rightarrow> nat \<times> stats \<times> jsstring list" where
  "scanFrom rows offset st =
     (if offset < MAX_RECORDS \<and> length (snd st) < length getAllStatTypes
      then (if take BATCH_SIZE (drop offset rows) = [] then (offset, st)
            else (if length (snd (scanBatch offset (take BATCH_SIZE (drop offset rows)) st))
                       = length getAllStatTypes
                  then (offset + length (take BATCH_SIZE (drop offset rows)),
                        scanBatch offset (take BATCH_SIZE (drop offset rows)) st)
                  else scanFrom rows (offset + length (take BATCH_SIZE (drop offset rows)))
                         (scanBatch offset (take BATCH_SIZE (drop offset rows)) st)))
      else (offset, st))"
  by pat_completeness auto
termination
  by (relation "measure (\<lambda>(rows, offset, st). MAX_RECORDS - offset)") auto

definition calculateYilouDynamic :: "'a LotteryData_scheme list \<Rightarrow> stats" where
  "calculateYilouDynamic rows =
     (let unfound = map (\<lambda>(k, v). (k, - 1)) createEmptyStatObject;
          (offset, yilou, foundTypes) = scanFrom rows 0 (unfound, [])
      in foldl (\<lambda>y t. if map_of y t = Some (- 1) then assign t (int offset) y else y)
           yilou getAllStatTypes)"

text \<open>\<^verbatim>\<open>yilou[type] || 0\<close>: a missing or zero value gives 0.\<close>

definition orZero :: "int option \<Rightarrow> int" where
  "orZero v = (case v of None \<Rightarrow> 0 | Some n \<Rightarrow> if n = 0 then 0 else n)"

definition initializeOmissionData :: "'a LotteryData_scheme list \<Rightarrow> stats \<Rightarrow> stats" where
  "initializeOmissionData rows table =
     (let yilou = calculateYilouDynamic rows
      in foldl (\<lambda>t ty. assign ty (orZero (map_of yilou ty)) t) table getAllStatTypes)"

text \<open>
  \<open>batchUpdateStats\<close>: one \<^verbatim>\<open>UPDATE\<close> whose \<^verbatim>\<open>CASE\<close> gives a row the count of the first
  update of its type, on the rows whose type is among the updates.
\<close>

definition batchUpdateStats :: "stats \<Rightarrow> stats \<Rightarrow> stats" where
  "batchUpdateStats updates table =
     (if length updates = 0 then table
      else map (\<lambda>(ty, count).
                  if ty \<in> set (map fst updates) then (ty, the (map_of updates ty))
                  else (ty, count)) table)"

definition updateOmissionData ::
  "'a LotteryData_scheme list \<Rightarrow> stats \<Rightarrow> 'b LotteryData_scheme \<Rightarrow> stats" where
  "updateOmissionData rows table d =
     (let table1 = (if length table = 0 then initializeOmissionData rows table else table);
          hitTypes = set (collectHitTypes d);
          currentOmissions = table1;
          updates = map (\<lambda>(ty, count). (ty, if ty \<in> hitTypes then 0 else count + 1))
                      currentOmissions
      in batchUpdateStats updates table1)"

text \<open>
  The engine applied to the committed draws one after the other, each with the rows of
  the draw store at its time.
\<close>

definition updateOmissionDataSeq ::
  "stats \<Rightarrow> ('a LotteryData_scheme list \<times> 'a LotteryData_scheme) list \<Rightarrow> stats" where
  "updateOmissionDataSeq table commits =
     foldl (\<lambda>t (rows, d). updateOmissionData rows t d) table commits"

text \<open>
  The number of draws since a type last held, in the words of the specification: the
  draws of the sequence that come after the last one whose hit set has the type.
\<close>

definition draws_since :: "jsstring \<Rightarrow> 'a LotteryData_scheme list \<Rightarrow> nat" where
  "draws_since c ds = length (takeWhile (\<lambda>d. c \<notin> set (collectHitTypes d)) (rev ds))"

section \<open>Retry (helpers/retry.ts, database/operations.ts)\<close>

text \<open>\<^verbatim>\<open>s.includes(sub)\<close>.\<close>

fun strIncludes :: "jsstring \<Rightarrow> jsstring \<Rightarrow> bool" where
  "strIncludes [] sub = (sub = [])"
| "strIncludes (c # cs) sub = (take (length sub) (c # cs) = sub \<or> strIncludes cs sub)"

definition codeIn :: "js_error \<Rightarrow> string list \<Rightarrow> bool" where
  "codeIn e cs = (err_code e \<in> set (map (\<lambda>c. Some (str c)) cs))"

definition statusIn :: "js_error \<Rightarrow> int \<Rightarrow> int \<Rightarrow> bool" where
  "statusIn e lo hi = (case err_status e of None \<Rightarrow> False | Some st \<Rightarrow> lo \<le> st \<and> st < hi)"

definition defaultShouldRetry :: "js_error \<Rightarrow> bool" where
  "defaultShouldRetry e =
     (if codeIn e [''P2002'', ''P2003'', ''P2004'', ''P2014'', ''P2025''] then False
      else if statusIn e 400 500 then err_status e = Some 429
      else if statusIn e 500 600 then True
      else if codeIn e [''ECONNABORTED'', ''ERR_CANCELED'',
                        ''P2024'', ''P1001'', ''P1002'', ''P1008'', ''P1017'',
                        ''ECONNREFUSED'', ''ETIMEDOUT'', ''ENOTFOUND'', ''ECONNRESET'', ''EPIPE'',
                        ''ENETUNREACH'', ''EHOSTUNREACH'', ''EAI_AGAIN''] then True
      else if err_errno e \<in> set (map Some [1205, 1213, 1040, 2002, 2003, 2006, 2013]) then True
      else (let errorMessage = err_message e
            in (strIncludes errorMessage (str ''Connection'') \<and> strIncludes errorMessage (str ''timeout''))
             \<or> (strIncludes errorMessage (str ''Connection'') \<and> strIncludes errorMessage (str ''lost''))
             \<or> (strIncludes errorMessage (str ''Connection'') \<and> strIncludes errorMessage (str ''closed''))
             \<or> strIncludes errorMessage (str ''ECONNRESET'')
             \<or> strIncludes errorMessage (str ''socket hang up'')
             \<or> strIncludes errorMessage (str ''aborted'')))"

text \<open>
  \<open>retryAsync\<close> with the default \<open>shouldRetry\<close> and at least one attempt. The operation
  is a call on a store; \<open>fn k\<close> is what its \<open>k\<close>-th attempt does. \<open>attemptFrom\<close> is the
  loop from the attempt \<open>k\<close> with \<open>left\<close> further attempts allowed: an error that is not
  retriable, or the error of the last attempt, is thrown. The waiting is not modelled.
\<close>

fun attemptFrom :: "(nat \<Rightarrow> 'a reply) \<Rightarrow> nat \<Rightarrow> nat \<Rightarrow> js_error + 'a" where
  "attemptFrom fn k left =
     (case fn k of
        Returned x \<Rightarrow> Inr x
      | Raised e \<Rightarrow>
          if \<not> defaultShouldRetry e then Inl e
          else (case left of 0 \<Rightarrow> Inl e | Suc l \<Rightarrow> attemptFrom fn (Suc k) l))"

definition retryAsync :: "(nat \<Rightarrow> 'a reply) \<Rightarrow> nat \<Rightarrow> js_error + 'a" where
  "retryAsync fn maxAttempts = attemptFrom fn 1 (maxAttempts - 1)"

section \<open>The dedup store (modules/cache/deduplication.ts)\<close>

text \<open>
  The local cache maps an issue to the time of its mark, in insertion order; Redis holds
  the seen keys and the last-issue pointer. How Redis answers a call is an input: it is
  reported unhealthy, the command fails, or it is up. The expiry of Redis keys and the
  writing of the cache file are not modelled.
\<close>

datatype redis_status = Unhealthy | Failing | Up

record Dedup =
  localProcessedCache :: "(jsstring \<times> int) list"
  lastIssueLocal :: "jsstring option"
  redisSeen :: "jsstring list"
  redisLastIssue :: "jsstring option"

definition LOCAL_CACHE_TTL :: int where "LOCAL_CACHE_TTL = 3600000"
definition MAX_LOCAL_CACHE_SIZE :: nat where "MAX_LOCAL_CACHE_SIZE = 5000"

definition mapDelete :: "jsstring \<Rightarrow> (jsstring \<times> int) list \<Rightarrow> (jsstring \<times> int) list" where
  "mapDelete k m = filter (\<lambda>(k', v). k' \<noteq> k) m"

definition cleanLocalCache :: "int \<Rightarrow> (jsstring \<times> int) list \<Rightarrow> (jsstring \<times> int) list" where
  "cleanLocalCache now cache = filter (\<lambda>(issue, timestamp). \<not> (now - timestamp > LOCAL_CACHE_TTL)) cache"

definition isProcessedLocally ::
  "int \<Rightarrow> jsstring \<Rightarrow> (jsstring \<times> int) list \<Rightarrow> bool \<times> (jsstring \<times> int) list" where
  "isProcessedLocally now issue cache =
     (case map_of cache issue of
        None \<Rightarrow> (False, cache)
      | Some timestamp \<Rightarrow>
          if timestamp = 0 then (False, cache)
          else if now - timestamp > LOCAL_CACHE_TTL then (False, mapDelete issue cache)
          else (True, cache))"

definition markProcessedLocally ::
  "int \<Rightarrow> jsstring \<Rightarrow> (jsstring \<times> int) list \<Rightarrow> (jsstring \<times> int) list" where
  "markProcessedLocally now issue cache =
     (let cache1 =
        (if length cache \<ge> MAX_LOCAL_CACHE_SIZE
         then (let cleaned = cleanLocalCache now cache
               in if length cleaned \<ge> MAX_LOCAL_CACHE_SIZE
                  then (let entries = sort_key snd cleaned;
                            oldest = map fst (take (length entries div 2) entries)
                        in filter (\<lambda>(i, t). i \<notin> set oldest) cleaned)
                  else cleaned)
         else cache)
      in assign issue now cache1)"

definition isProcessed :: "redis_status \<Rightarrow> int \<Rightarrow> jsstring \<Rightarrow> Dedup \<Rightarrow> bool \<times> Dedup" where
  "isProcessed redis now issue dd =
     (case redis of
        Up \<Rightarrow>
          (let processed = (issue \<in> set (redisSeen dd))
           in (processed,
               if processed
               then dd\<lparr> localProcessedCache := markProcessedLocally now issue (localProcessedCache dd) \<rparr>
               else dd))
      | _ \<Rightarrow>
          (let (r, cache) = isProcessedLocally now issue (localProcessedCache dd)
           in (r, dd\<lparr> localProcessedCache := cache \<rparr>)))"

definition markProcessed :: "redis_status \<Rightarrow> int \<Rightarrow> jsstring \<Rightarrow> Dedup \<Rightarrow> Dedup" where
  "markProcessed redis now issue dd =
     (let dd1 = dd\<lparr> localProcessedCache := markProcessedLocally now issue (localProcessedCache dd) \<rparr>
      in case redis of
           Up \<Rightarrow> dd1\<lparr> redisSeen := List.insert issue (redisSeen dd1) \<rparr>
         | _ \<Rightarrow> dd1)"

definition getLastIssue :: "redis_status \<Rightarrow> Dedup \<Rightarrow> jsstring option \<times> Dedup" where
  "getLastIssue redis dd =
     (case redis of
        Up \<Rightarrow>
          (let issue = redisLastIssue dd
           in (issue,
               if issue \<noteq> None \<and> issue \<noteq> Some [] then dd\<lparr> lastIssueLocal := issue \<rparr> else dd))
      | _ \<Rightarrow> (lastIssueLocal dd, dd))"

definition setLastIssue :: "redis_status \<Rightarrow> jsstring \<Rightarrow> Dedup \<Rightarrow> Dedup" where
  "setLastIssue redis issue dd =
     (let dd1 = dd\<lparr> lastIssueLocal := Some issue \<rparr>
      in case redis of
           Up \<Rightarrow> dd1\<lparr> redisLastIssue := Some issue \<rparr>
         | _ \<Rightarrow> dd1)"

section \<open>The lock service (modules/cache/lock.ts)\<close>

record Locks =
  localLocks :: "(jsstring \<times> int) list"
  redisLocks :: "jsstring list"

text \<open>\<^verbatim>\<open>LOCK_TTL\<close> is configuration (seconds); the local locks count milliseconds.\<close>

definition cleanLocalLocks :: "int \<Rightarrow> int \<Rightarrow> (jsstring \<times> int) list \<Rightarrow> (jsstring \<times> int) list" where
  "cleanLocalLocks ttl now ls = filter (\<lambda>(issue, timestamp). \<not> (now - timestamp > ttl * 1000)) ls"

definition acquireLocalLock ::
  "int \<Rightarrow> int \<Rightarrow> jsstring \<Rightarrow> (jsstring \<times> int) list \<Rightarrow> bool \<times> (jsstring \<times> int) list" where
  "acquireLocalLock ttl now issue ls =
     (let cleaned = cleanLocalLocks ttl now ls
      in case map_of cleaned issue of
           None \<Rightarrow> (True, assign issue now cleaned)
         | Some existingLock \<Rightarrow>
             if existingLock \<noteq> 0 \<and> now - existingLock < ttl * 1000 then (False, cleaned)
             else (True, assign issue now cleaned))"

definition acquireLock :: "redis_status \<Rightarrow> int \<Rightarrow> int \<Rightarrow> jsstring \<Rightarrow> Locks \<Rightarrow> bool \<times> Locks" where
  "acquireLock redis ttl now issue lk =
     (case redis of
        Up \<Rightarrow>
          if issue \<in> set (redisLocks lk) then (False, lk)
          else (True, lk\<lparr> redisLocks := issue # redisLocks lk \<rparr>)
      | _ \<Rightarrow>
          (let (acquired, ls) = acquireLocalLock ttl now issue (localLocks lk)
           in (acquired, lk\<lparr> localLocks := ls \<rparr>)))"

definition releaseLock :: "redis_status \<Rightarrow> jsstring \<Rightarrow> Locks \<Rightarrow> Locks" where
  "releaseLock redis issue lk =
     (let lk1 = lk\<lparr> localLocks := mapDelete issue (localLocks lk) \<rparr>
      in case redis of
           Up \<Rightarrow> lk1\<lparr> redisLocks := removeAll issue (redisLocks lk1) \<rparr>
         | _ \<Rightarrow> lk1)"

section \<open>The draw store and the writer (modules/lottery/writer.ts)\<close>

text \<open>
  A row of \<^verbatim>\<open>latest_lottery_data\<close>: the enriched draw and the two time stamps. The
  opening time is kept as the string it is parsed from (dates are not modelled).
\<close>

record DrawRow = LotteryData +
  created_at :: int
  updated_at :: int

text \<open>
  Modelled from the spec: the schema of the table (prisma/schema.prisma) is not under
  src/. The issue is the unique key, and an upsert writes the \<^verbatim>\<open>create\<close> row when no row
  has the key and applies the assignments of its \<^verbatim>\<open>update\<close> clause to the row that has
  it; the store assigns no column by itself.
\<close>

definition upsert :: "jsstring \<Rightarrow> DrawRow \<Rightarrow> (DrawRow \<Rightarrow> DrawRow) \<Rightarrow> DrawRow list \<Rightarrow> DrawRow list" where
  "upsert key create update rows =
     (if list_ex (\<lambda>r. qihao r = key) rows
      then map (\<lambda>r. if qihao r = key then update r else r) rows
      else rows @ [create])"

text \<open>
  What is thrown in the writer: an error of a store call, the \<^verbatim>\<open>Error\<close> made of a failed
  validation, or the \<^verbatim>\<open>LotteryError\<close> with its numeric code that wraps another error.
  \<open>Unmodelled\<close> is no error of the source: it marks the analysis of numbers that are
  \<^verbatim>\<open>NaN\<close>, which the model does not compute and which cannot follow a passed validation.
\<close>

datatype thrown =
    StoreError js_error
  | ValidationFailed validation_error
  | LotteryError int thrown
  | Unmodelled

text \<open>\<^verbatim>\<open>error.code === 'P2002'\<close>.\<close>

fun isDuplicateKeyError :: "thrown \<Rightarrow> bool" where
  "isDuplicateKeyError (StoreError e) = (err_code e = Some (str ''P2002''))"
| "isDuplicateKeyError _ = False"

definition DB_WRITE_FAILED :: int where "DB_WRITE_FAILED = 2001"

text \<open>
  The inputs of one run of the writer: the clock, the lock time of the configuration, how
  Redis answers each of its calls, what each attempt of the upsert does, and for the
  omission engine the rows of its query and whether it raises.
\<close>

record env =
  clock :: int
  lockTTL :: int
  redis_skip :: redis_status
  redis_acquire :: redis_status
  redis_recheck :: redis_status
  redis_getLast :: redis_status
  upsert_attempt :: "nat \<Rightarrow> unit reply"
  omission_rows :: "DrawRow list"
  omission_raises :: bool
  redis_mark :: redis_status
  redis_setLast :: redis_status
  redis_release :: redis_status
  redis_markDuplicate :: redis_status

record pipeline =
  draws :: "DrawRow list"
  omission :: stats
  dedup :: Dedup
  locks :: Locks
  tracker :: IssueTracker
  emitted :: "LotteryData list"

text \<open>
  \<open>writeToDatabase\<close>: the upsert with an empty \<^verbatim>\<open>update\<close> clause under three attempts. A
  thrown error with the code P2002 is swallowed, any other is thrown on. An attempt that
  raises writes nothing.
\<close>

definition writeToDatabase ::
  "env \<Rightarrow> LotteryData \<Rightarrow> DrawRow list \<Rightarrow> thrown option \<times> DrawRow list" where
  "writeToDatabase ev d rows =
     (let now = clock ev
      in case retryAsync (upsert_attempt ev) 3 of
           Inr u \<Rightarrow>
             (None, upsert (qihao d)
                      (LotteryData.extend d (DrawRow.fields now now)) (\<lambda>r. r) rows)
         | Inl e \<Rightarrow>
             if err_code e = Some (str ''P2002'') then (None, rows)
             else (Some (StoreError e), rows))"

definition finalizeProcessing :: "env \<Rightarrow> LotteryData \<Rightarrow> pipeline \<Rightarrow> pipeline" where
  "finalizeProcessing ev d s =
     (let s1 = s\<lparr> dedup := markProcessed (redis_mark ev) (clock ev) (qihao d) (dedup s) \<rparr>;
          s2 = s1\<lparr> dedup := setLastIssue (redis_setLast ev) (qihao d) (dedup s1) \<rparr>;
          s3 = s2\<lparr> tracker := updateLatestIssue (qihao d) (tracker s2) \<rparr>
      in s3\<lparr> emitted := emitted s3 @ [d] \<rparr>)"

text \<open>
  \<open>processDataWithLock\<close>. The log lines, the daily statistics and the local backup are
  left out: each catches its own errors and writes to state that is not part of the
  model. The last-issue pointer is read only when the four checks have passed.
\<close>

definition processDataWithLock :: "env \<Rightarrow> BaseLotteryData \<Rightarrow> pipeline \<Rightarrow> thrown option \<times> pipeline" where
  "processDataWithLock ev d s =
     (let (seen, dd1) = isProcessed (redis_recheck ev) (clock ev) (qihao d) (dedup s);
          s1 = s\<lparr> dedup := dd1 \<rparr>
      in if seen then (None, s1)
         else
          (let (lastIssue, dd2) = getLastIssue (redis_getLast ev) (dedup s1);
               validationResult = fst (validateLotteryData lastIssue d);
               s2 = (if valid (fst (validateLotteryData None d)) then s1\<lparr> dedup := dd2 \<rparr> else s1)
           in case validationResult of
                Invalid err \<Rightarrow> (Some (ValidationFailed err), s2)
              | Valid \<Rightarrow>
                 (case enrich d of
                    None \<Rightarrow> (Some Unmodelled, s2)
                  | Some enriched \<Rightarrow>
                     (case writeToDatabase ev enriched (draws s2) of
                        (Some e, rows) \<Rightarrow> (Some e, s2\<lparr> draws := rows \<rparr>)
                      | (None, rows) \<Rightarrow>
                          (let s3 = s2\<lparr> draws := rows \<rparr>;
                               s4 = (if omission_raises ev then s3
                                     else s3\<lparr> omission :=
                                            updateOmissionData (omission_rows ev) (omission s3) enriched \<rparr>)
                           in (None, finalizeProcessing ev enriched s4))))))"

definition handleProcessingError :: "env \<Rightarrow> thrown \<Rightarrow> BaseLotteryData \<Rightarrow> pipeline \<Rightarrow> thrown option \<times> pipeline" where
  "handleProcessingError ev error d s =
     (if isDuplicateKeyError error
      then (None, s\<lparr> dedup := markProcessed (redis_markDuplicate ev) (clock ev) (qihao d) (dedup s) \<rparr>)
      else (Some (LotteryError DB_WRITE_FAILED error), s))"

definition processLotteryData :: "env \<Rightarrow> BaseLotteryData \<Rightarrow> pipeline \<Rightarrow> thrown option \<times> pipeline" where
  "processLotteryData ev d s =
     (if \<not> isNewIssue (tracker s) (qihao d) then (None, s)
      else
       (let (skip, dd1) = isProcessed (redis_skip ev) (clock ev) (qihao d) (dedup s);
            s1 = s\<lparr> dedup := dd1 \<rparr>
        in if skip then (None, s1)
           else
            (let (lockAcquired, lk1) = acquireLock (redis_acquire ev) (lockTTL ev) (clock ev) (qihao d) (locks s1);
                 s2 = s1\<lparr> locks := lk1 \<rparr>
             in if \<not> lockAcquired then (None, s2)
                else
                 (let (r, s3) = processDataWithLock ev d s2;
                      s4 = s3\<lparr> locks := releaseLock (redis_release ev) (qihao d) (locks s3) \<rparr>
                  in case r of
                       None \<Rightarrow> (None, s4)
                     | Some error \<Rightarrow> handleProcessingError ev error d s4))))"

section \<open>Auxiliary notions of the proofs\<close>

text \<open>A non-empty string of digits, and its decimal value.\<close>

definition digits :: "jsstring \<Rightarrow> bool" where
  "digits p = (p \<noteq> [] \<and> (\<forall>c\<in>set p. isDigit c))"

definition dval :: "jsstring \<Rightarrow> nat" where
  "dval p = foldl (\<lambda>acc c. acc * 10 + (c - 48)) 0 p"

text \<open>The draw of the specification's first scenario, with a declared sum \<open>n\<close>.\<close>

definition draw1 :: "int \<Rightarrow> BaseLotteryData" where
  "draw1 n = \<lparr> qihao = str ''2025001'', opentime = str ''2025-12-10 15:30:00'',
               opennum = str ''3+5+8'', sum_value = n, source = str ''S1'' \<rparr>"

text \<open>The rule of the omission engine on one row, for a draw \<open>d\<close>.\<close>

definition omissionRule :: "'a LotteryData_scheme \<Rightarrow> jsstring \<times> int \<Rightarrow> jsstring \<times> int" where
  "omissionRule d = (\<lambda>(c, n). (c, if c \<in> set (collectHitTypes d) then 0 else n + 1))"

text \<open>
  The first scenario's draw as it is enriched (3+5+8, sum 16), a second enriched draw
  (1+2+3, sum 6), and the counter table as the migration creates it, every count 0.
\<close>

definition draw1_enriched :: LotteryData where
  "draw1_enriched =
     \<lparr> qihao = str ''2025001'', opentime = str ''2025-12-10 15:30:00'',
       opennum = str ''3+5+8'', sum_value = 16, source = str ''S1'',
       is_da = True, is_xiao = False, is_dan = False, is_shuang = True,
       is_jida = False, is_jixiao = False, combination = DA_SHUANG,
       is_baozi = False, is_duizi = False, is_shunzi = False, is_zaliu = True,
       is_xiaobian = False, is_zhong = True, is_dabian = False, is_bian = False,
       is_long = False, is_hu = True, is_he = False \<rparr>"

definition draw2_enriched :: LotteryData where
  "draw2_enriched =
     \<lparr> qihao = str ''2025002'', opentime = str ''2025-12-10 15:33:30'',
       opennum = str ''1+2+3'', sum_value = 6, source = str ''S1'',
       is_da = False, is_xiao = True, is_dan = False, is_shuang = True,
       is_jida = False, is_jixiao = False, combination = XIAO_SHUANG,
       is_baozi = False, is_duizi = False, is_shunzi = True, is_zaliu = False,
       is_xiaobian = True, is_zhong = False, is_dabian = False, is_bian = True,
       is_long = False, is_hu = True, is_he = False \<rparr>"

definition table0 :: stats where
  "table0 = map (\<lambda>k. (k, 0)) getAllStatTypes"

text \<open>
  A run of the writer in which the store answers the upsert with a unique-constraint
  violation, on a fresh system, and a row that the store may already hold for the issue.
\<close>

definition dup_error :: js_error where
  "dup_error = \<lparr> err_code = Some (str ''P2002''), err_errno = None, err_status = None,
                  err_message = str ''Unique constraint failed'' \<rparr>"

definition env_dup :: env where
  "env_dup = \<lparr> clock = 1765351800000, lockTTL = 3,
               redis_skip = Up, redis_acquire = Up, redis_recheck = Up, redis_getLast = Up,
               upsert_attempt = (\<lambda>k. Raised dup_error),
               omission_rows = [], omission_raises = False,
               redis_mark = Up, redis_setLast = Up, redis_release = Up,
               redis_markDuplicate = Up \<rparr>"

definition env_ok :: env where
  "env_ok = env_dup\<lparr> upsert_attempt := (\<lambda>k. Returned ()) \<rparr>"

definition state0 :: pipeline where
  "state0 = \<lparr> draws = [], omission = table0,
              dedup = \<lparr> localProcessedCache = [], lastIssueLocal = None,
                        redisSeen = [], redisLastIssue = None \<rparr>,
              locks = \<lparr> localLocks = [], redisLocks = [] \<rparr>,
              tracker = \<lparr> latestIssue = str ''0'', isInitialized = True \<rparr>,
              emitted = [] \<rparr>"

definition row0 :: DrawRow where
  "row0 = LotteryData.extend (draw1_enriched\<lparr> source := str ''S0'' \<rparr>)
            (DrawRow.fields 1765351000000 1765351000000)"

section \<open>Enrichment invariants\<close>

lemma jsString_digit:
  "0 \<le> a \<Longrightarrow> a \<le> 9 \<Longrightarrow> jsString a = [48 + nat a]"
  by (simp add: jsString_def)

lemma parseInt_digit:
  assumes "0 \<le> a" "a \<le> 9"
  shows "parseInt [48 + nat a] = Some a"
proof -
  have d: "isDigit (48 + nat a)" using assms by (simp add: isDigit_def)
  have w: "\<not> isWhiteSpace (48 + nat a)" using assms by (auto simp: isWhiteSpace_def)
  have r: "radixDigit 10 (48 + nat a) = Some (nat a)" using d by (simp add: radixDigit_def)
  have p: "parseDigits 10 [48 + nat a] = Some (nat a)" using r by (simp add: parseDigits_def)
  have s: "48 + nat a \<noteq> 45" "48 + nat a \<noteq> 43" using assms by simp_all
  show ?thesis using w p s assms by (simp add: parseInt_def)
qed

lemma split_plus3:
  assumes "0 \<le> a" "a \<le> 9" "0 \<le> b" "b \<le> 9" "0 \<le> c" "c \<le> 9"
  shows "map parseInt (split 43 (plus3 a b c)) = [Some a, Some b, Some c]"
proof -
  have ne: "48 + nat a \<noteq> 43" "48 + nat b \<noteq> 43" "48 + nat c \<noteq> 43" by simp_all
  have "split 43 (plus3 a b c) = [[48 + nat a], [48 + nat b], [48 + nat c]]"
    using assms ne by (simp add: plus3_def jsString_digit)
  then show ?thesis using assms by (simp add: parseInt_digit)
qed

lemma numbers_plus3:
  assumes "0 \<le> a" "a \<le> 9" "0 \<le> b" "b \<le> 9" "0 \<le> c" "c \<le> 9"
  shows "all_numbers (map parseInt (split 43 (plus3 a b c))) = Some [a, b, c]"
  using split_plus3 [OF assms] by (simp add: all_numbers_def)

lemma exactly_one_2: "exactly_one [p, q] = (p \<noteq> q)"
  by (auto simp: exactly_one_def)

lemma exactly_one_3:
  "exactly_one [p, q, r] = ((p \<and> \<not> q \<and> \<not> r) \<or> (\<not> p \<and> q \<and> \<not> r) \<or> (\<not> p \<and> \<not> q \<and> r))"
  by (auto simp: exactly_one_def)

lemma exactly_one_4:
  "exactly_one [p, q, r, s] =
     ((p \<and> \<not> q \<and> \<not> r \<and> \<not> s) \<or> (\<not> p \<and> q \<and> \<not> r \<and> \<not> s)
      \<or> (\<not> p \<and> \<not> q \<and> r \<and> \<not> s) \<or> (\<not> p \<and> \<not> q \<and> \<not> r \<and> s))"
  by (auto simp: exactly_one_def)

lemma jsRem_2_nonneg: "0 \<le> s \<Longrightarrow> jsRem s 2 = s mod 2"
  by (cases "s = 0") (simp_all add: jsRem_def)

lemma sum_flags:
  assumes "0 \<le> s" "s \<le> 27"
  shows "exactly_one [isDa (analyzeSumValue s), isXiao (analyzeSumValue s)]"
    and "exactly_one [isDan (analyzeSumValue s), isShuang (analyzeSumValue s)]"
    and "exactly_one [isXiaoBian (analyzeSumValue s), isZhong (analyzeSumValue s),
                      isDaBian (analyzeSumValue s)]"
proof -
  show "exactly_one [isDa (analyzeSumValue s), isXiao (analyzeSumValue s)]"
    by (auto simp: analyzeSumValue_def Let_def exactly_one_2)
  show "exactly_one [isDan (analyzeSumValue s), isShuang (analyzeSumValue s)]"
    using assms by (simp add: analyzeSumValue_def Let_def exactly_one_2 jsRem_2_nonneg)
  show "exactly_one [isXiaoBian (analyzeSumValue s), isZhong (analyzeSumValue s),
                     isDaBian (analyzeSumValue s)]"
    using assms by (auto simp: analyzeSumValue_def Let_def exactly_one_3)
qed

lemma pattern_flags:
  "exactly_one [isBaozi (analyzePattern ns), isDuizi (analyzePattern ns),
                isShunzi (analyzePattern ns), isZaliu (analyzePattern ns)]"
  by (auto simp: analyzePattern_def Let_def exactly_one_4)

lemma longhuhe_flags:
  "exactly_one [isLong (analyzeLongHuHe [a, b, c]), isHu (analyzeLongHuHe [a, b, c]),
                isHe (analyzeLongHuHe [a, b, c])]"
  by (auto simp: analyzeLongHuHe_def Let_def exactly_one_3 greater_def at_def)

text \<open>
  C1. For digits \<open>a\<close>, \<open>b\<close>, \<open>c\<close> in 0..9, a draw whose numbers are \<^verbatim>\<open>"a+b+c"\<close> and whose
  sum is \<open>a + b + c\<close> is enriched, and in the enriched record exactly one of big/small,
  exactly one of odd/even, exactly one of triple/pair/straight/misc, exactly one of
  small-edge/middle/big-edge and exactly one of dragon/tiger/tie holds.
\<close>

theorem enrich_mutual_exclusion:
  assumes "a \<in> {0..9}" "b \<in> {0..9}" "c \<in> {0..9}"
    and "opennum d = plus3 a b c" and "sum_value d = a + b + c"
  shows "\<exists>e. enrich d = Some e
           \<and> exactly_one [is_da e, is_xiao e]
           \<and> exactly_one [is_dan e, is_shuang e]
           \<and> exactly_one [is_baozi e, is_duizi e, is_shunzi e, is_zaliu e]
           \<and> exactly_one [is_xiaobian e, is_zhong e, is_dabian e]
           \<and> exactly_one [is_long e, is_hu e, is_he e]"
proof -
  have r: "0 \<le> a" "a \<le> 9" "0 \<le> b" "b \<le> 9" "0 \<le> c" "c \<le> 9"
    using assms(1-3) by simp_all
  have s: "0 \<le> a + b + c" "a + b + c \<le> 27" using r by simp_all
  let ?an = "\<lparr> sum_analysis = analyzeSumValue (a + b + c),
               pattern = analyzePattern [a, b, c],
               longHuHe = analyzeLongHuHe [a, b, c],
               types = collectStatTypes (a + b + c) (analyzePattern [a, b, c])
                         (analyzeLongHuHe [a, b, c]) \<rparr>"
  have an: "analyzeFullLotteryData (opennum d) (sum_value d) = Some ?an"
    using numbers_plus3 [OF r] assms(4,5) by (simp add: analyzeFullLotteryData_def Let_def)
  have e: "enrich d = Some (enrichedData d ?an)"
    using an by (simp add: enrich_def)
  show ?thesis
    using e sum_flags [OF s] pattern_flags [of "[a, b, c]"] longhuhe_flags [of a b c]
    by (simp add: enrichedData_def)
qed

theorem enrich_mutual_exclusion_witness:
  "\<exists>e. enrich \<lparr> qihao = str ''2025001'', opentime = str ''2025-12-10 15:30:00'',
                 opennum = str ''3+5+8'', sum_value = 16, source = str ''S1'' \<rparr> = Some e
       \<and> exactly_one [is_da e, is_xiao e]
       \<and> exactly_one [is_dan e, is_shuang e]
       \<and> exactly_one [is_baozi e, is_duizi e, is_shunzi e, is_zaliu e]
       \<and> exactly_one [is_xiaobian e, is_zhong e, is_dabian e]
       \<and> exactly_one [is_long e, is_hu e, is_he e]"
proof -
  have p: "str ''3+5+8'' = plus3 3 5 8"
    by (simp add: str_def plus3_def jsString_def)
  show ?thesis
    using enrich_mutual_exclusion [of 3 5 8
        "\<lparr> qihao = str ''2025001'', opentime = str ''2025-12-10 15:30:00'',
           opennum = str ''3+5+8'', sum_value = 16, source = str ''S1'' \<rparr>"] p
    by simp
qed

section \<open>The issue tracker\<close>

lemmas parse_eval = str_def parseInt_def isWhiteSpace_def parseDigits_def radixDigit_def
  isDigit_def greater_def

lemma parseInt_0: "parseInt (str ''0'') = Some 0"
  by (simp add: parse_eval)

text \<open>
  C10. In \<open>isNewIssue\<close> the handler that returns true on a parse failure is not reachable:
  parsing a string gives a number or \<^verbatim>\<open>NaN\<close> and never raises. So for an initialized
  tracker and an issue that does not parse to a number the comparison with \<^verbatim>\<open>NaN\<close> fails
  and \<open>isNewIssue\<close> is false: the issue is filtered, not passed through.
\<close>

theorem isNewIssue_unparseable:
  "isInitialized t \<Longrightarrow> parseInt q = None \<Longrightarrow> isNewIssue t q = False"
  by (simp add: isNewIssue_def greater_def)

theorem isNewIssue_unparseable_witness:
  "isInitialized \<lparr> latestIssue = str ''2025001'', isInitialized = True \<rparr>
   \<and> parseInt (str ''abc'') = None
   \<and> isNewIssue \<lparr> latestIssue = str ''2025001'', isInitialized = True \<rparr> (str ''abc'') = False"
proof -
  have p: "parseInt (str ''abc'') = None"
    by (simp add: parse_eval)
  show ?thesis
    using isNewIssue_unparseable
      [of "\<lparr> latestIssue = str ''2025001'', isInitialized = True \<rparr>" "str ''abc''"] p
    by simp
qed

text \<open>
  C6, as the code has it. When the read of the draw store fails, \<open>initialize\<close> sets the
  high-water mark to \<^verbatim>\<open>"0"\<close>, completes without raising and records the tracker as
  initialized: \<open>isReady\<close> is true afterwards, and \<open>isNewIssue\<close> admits exactly the
  issues that parse to a number greater than 0.
\<close>

theorem initialize_failure:
  "initialize (Raised e) t = Inr (t\<lparr> latestIssue := str ''0'', isInitialized := True \<rparr>)
   \<and> isReady (t\<lparr> latestIssue := str ''0'', isInitialized := True \<rparr>) = True
   \<and> isNewIssue (t\<lparr> latestIssue := str ''0'', isInitialized := True \<rparr>) q
       = greater (parseInt q) (Some 0)"
  by (simp add: initialize_def isReady_def isNewIssue_def parseInt_0)

text \<open>
  C6, as stated, fails: after a failed read on a fresh tracker \<open>isReady\<close> is true, not
  false, and the issue \<^verbatim>\<open>"0000000"\<close> is filtered.
\<close>

theorem initialize_failure_counterexample:
  "initialize (Raised \<lparr> err_code = Some (str ''P1001''), err_errno = None, err_status = None,
                       err_message = str ''unreachable'' \<rparr>) newIssueTracker
     = Inr \<lparr> latestIssue = str ''0'', isInitialized = True \<rparr>
   \<and> isReady \<lparr> latestIssue = str ''0'', isInitialized = True \<rparr> = True
   \<and> isNewIssue \<lparr> latestIssue = str ''0'', isInitialized = True \<rparr> (str ''0000000'') = False"
  by (simp add: initialize_def newIssueTracker_def isReady_def isNewIssue_def parse_eval)

section \<open>The prediction verifier\<close>

lemmas label_defs = combo_labels_def DA_DAN_def XIAO_DAN_def DA_SHUANG_def XIAO_SHUANG_def
  DA_def XIAO_def DAN_def SHUANG_def

lemma trim_label: "l \<in> set combo_labels \<Longrightarrow> trim l = l"
  by (auto simp: label_defs trim_def isWhiteSpace_def)

lemma label_no_comma: "l \<in> set combo_labels \<Longrightarrow> 44 \<notin> set l"
  by (auto simp: label_defs)

lemma split_no_sep: "sep \<notin> set s \<Longrightarrow> split sep s = [s]"
  by (induction s) auto

lemma split_append: "sep \<notin> set a \<Longrightarrow> split sep (a @ sep # rest) = a # split sep rest"
  by (induction a) auto

lemma combination_hit:
  assumes "l1 \<in> set combo_labels" "l2 \<in> set combo_labels"
  shows "calculateHit COMBINATION (l1 @ 44 # l2) r = (r = l1 \<or> r = l2)"
proof -
  have "split 44 (l1 @ 44 # l2) = [l1, l2]"
    using assms by (simp add: split_append split_no_sep label_no_comma)
  then show ?thesis using assms by (auto simp: trim_label)
qed

text \<open>
  C3. For a sum \<open>s\<close> in 0..27 the ground truth of a parity prediction is the odd label iff
  \<open>s\<close> is odd and the even label otherwise; of a magnitude prediction the big label iff
  \<open>s \<ge> 14\<close> and the small label otherwise; of a combo and of a kill prediction the
  label made of the two. A parity or magnitude prediction hits iff the predicted string
  equals the result; a combo prediction of two labels separated by a comma hits iff the
  result is one of the two; a kill prediction hits iff the result differs from it.
\<close>

theorem verifier_ground_truth_and_hit:
  assumes "0 \<le> s" "s \<le> 27"
  shows "calculateResultValue DANSHUANG s = Inr (if odd s then DAN else SHUANG)
       \<and> calculateResultValue DAXIAO s = Inr (if s \<ge> 14 then DA else XIAO)
       \<and> calculateResultValue COMBINATION s
           = Inr ((if s \<ge> 14 then DA else XIAO) @ (if odd s then DAN else SHUANG))
       \<and> calculateResultValue KILL s = calculateResultValue COMBINATION s
       \<and> calculateHit DANSHUANG p r = (p = r)
       \<and> calculateHit DAXIAO p r = (p = r)
       \<and> (l1 \<in> set combo_labels \<and> l2 \<in> set combo_labels
            \<longrightarrow> calculateHit COMBINATION (l1 @ 44 # l2) r = (r = l1 \<or> r = l2))
       \<and> calculateHit KILL p r = (r \<noteq> p)"
proof -
  have o: "(jsRem s 2 = 1) = odd s"
    using assms(1) by (simp add: jsRem_2_nonneg odd_iff_mod_2_eq_one)
  have 1: "calculateResultValue DANSHUANG s = Inr (if odd s then DAN else SHUANG)"
    using o by simp
  have 2: "calculateResultValue DAXIAO s = Inr (if s \<ge> 14 then DA else XIAO)" by simp
  have 3: "calculateResultValue COMBINATION s
           = Inr ((if s \<ge> 14 then DA else XIAO) @ (if odd s then DAN else SHUANG))"
    using o by (simp add: DA_DAN_def XIAO_DAN_def DA_SHUANG_def XIAO_SHUANG_def)
  have 4: "calculateResultValue KILL s = calculateResultValue COMBINATION s" by simp
  have 5: "calculateHit KILL p r = (r \<noteq> p)" by auto
  show ?thesis using 1 2 3 4 5 combination_hit by simp
qed

text \<open>
  The fourth scenario of the specification: the sum 19 gives odd, big and big-odd; the
  combo prediction "big-odd,small-even" hits and the kill prediction "big-odd" misses.
\<close>

theorem verifier_ground_truth_and_hit_witness:
  "(0::int) \<le> 19 \<and> (19::int) \<le> 27
   \<and> calculateResultValue DANSHUANG 19 = Inr DAN
   \<and> calculateResultValue DAXIAO 19 = Inr DA
   \<and> calculateResultValue COMBINATION 19 = Inr DA_DAN
   \<and> calculateResultValue KILL 19 = Inr DA_DAN
   \<and> calculateHit DANSHUANG DAN DAN = True
   \<and> calculateHit DAXIAO XIAO DA = False
   \<and> DA_DAN \<in> set combo_labels \<and> XIAO_SHUANG \<in> set combo_labels
   \<and> calculateHit COMBINATION (DA_DAN @ 44 # XIAO_SHUANG) DA_DAN = True
   \<and> calculateHit KILL DA_DAN DA_DAN = False"
proof -
  have m: "DA_DAN \<in> set combo_labels \<and> XIAO_SHUANG \<in> set combo_labels"
    by (simp add: combo_labels_def)
  have n: "XIAO \<noteq> DA" by (simp add: XIAO_def DA_def)
  show ?thesis
    using verifier_ground_truth_and_hit [of 19 DAN DAN DA_DAN XIAO_SHUANG]
      verifier_ground_truth_and_hit [of 19 XIAO DA DA_DAN XIAO_SHUANG]
      verifier_ground_truth_and_hit [of 19 DA_DAN DA_DAN DA_DAN XIAO_SHUANG] m n
    by (simp add: DA_DAN_def)
qed

section \<open>Validation\<close>

lemma matches_Many1:
  assumes "matches (Many1 isDigit # its) s"
  shows "\<exists>p r. s = p @ r \<and> digits p \<and> matches its r \<and> (its = [] \<longrightarrow> r = [])"
proof -
  from assms obtain c cs where s: "s = c # cs" and c: "isDigit c"
    and m: "matches its (dropWhile isDigit cs)"
    by (cases s) auto
  let ?p = "c # takeWhile isDigit cs"
  have "s = ?p @ dropWhile isDigit cs" using s by simp
  moreover have "digits ?p" using c by (auto simp: digits_def dest: set_takeWhileD)
  moreover have "its = [] \<longrightarrow> dropWhile isDigit cs = []" using m by auto
  ultimately show ?thesis using m by blast
qed

lemma matches_lit:
  assumes "matches (One (lit k) # its) s"
  shows "\<exists>r. s = k # r \<and> matches its r"
  using assms by (cases s) (auto simp: lit_def)

lemma three_groups_plus:
  assumes "matches (three_groups (One (lit 43))) s"
  shows "\<exists>p1 p2 p3. s = p1 @ 43 # p2 @ 43 # p3 \<and> digits p1 \<and> digits p2 \<and> digits p3"
proof -
  from assms have m1:
    "matches (Many1 isDigit # One (lit 43) # Many1 isDigit # One (lit 43) # [Many1 isDigit]) s"
    by (simp add: three_groups_def)
  from matches_Many1 [OF m1] obtain p1 r1 where
    1: "s = p1 @ r1" "digits p1"
       "matches (One (lit 43) # Many1 isDigit # One (lit 43) # [Many1 isDigit]) r1"
    by blast
  from matches_lit [OF 1(3)] obtain r2 where
    2: "r1 = 43 # r2" "matches (Many1 isDigit # One (lit 43) # [Many1 isDigit]) r2" by blast
  from matches_Many1 [OF 2(2)] obtain p2 r3 where
    3: "r2 = p2 @ r3" "digits p2" "matches (One (lit 43) # [Many1 isDigit]) r3" by blast
  from matches_lit [OF 3(3)] obtain r4 where
    4: "r3 = 43 # r4" "matches [Many1 isDigit] r4" by blast
  from matches_Many1 [OF 4(2)] obtain p3 r5 where
    5: "r4 = p3 @ r5" "digits p3" "r5 = []" by blast
  have "s = p1 @ 43 # p2 @ 43 # p3" using 1 2 3 4 5 by simp
  then show ?thesis using 1 3 5 by blast
qed

lemma digits_no_plus: "digits p \<Longrightarrow> 43 \<notin> set p"
  by (auto simp: digits_def isDigit_def)

lemma split_three:
  assumes "digits p1" "digits p2" "digits p3"
  shows "split 43 (p1 @ 43 # p2 @ 43 # p3) = [p1, p2, p3]"
  using assms by (simp add: split_append split_no_sep digits_no_plus)

lemma radixDigit_10: "isDigit c \<Longrightarrow> radixDigit 10 c = Some (c - 48)"
  by (simp add: radixDigit_def)

lemma foldl_cong_set:
  "(\<And>a x. x \<in> set xs \<Longrightarrow> f a x = g a x) \<Longrightarrow> foldl f a xs = foldl g a xs"
  by (induction xs arbitrary: a) auto

lemma parseDigits_digits:
  assumes "digits p"
  shows "parseDigits 10 p = Some (dval p)"
proof -
  have all: "\<forall>c\<in>set p. isDigit c" and ne: "p \<noteq> []" using assms by (auto simp: digits_def)
  have tw: "takeWhile (\<lambda>c. radixDigit 10 c \<noteq> None) p = p"
    using all by (simp add: radixDigit_10 takeWhile_eq_all_conv)
  have fl: "foldl (\<lambda>acc c. acc * 10 + the (radixDigit 10 c)) 0 p = dval p"
    unfolding dval_def using all by (intro foldl_cong_set) (simp add: radixDigit_10)
  show ?thesis unfolding parseDigits_def Let_def tw fl using ne by simp
qed

lemma parseInt_digits:
  assumes "digits p"
  shows "parseInt p = Some (int (dval p))"
proof -
  from assms obtain c cs where p: "p = c # cs" and c: "isDigit c"
    by (cases p) (auto simp: digits_def)
  have nw: "\<not> isWhiteSpace c" using c by (auto simp: isDigit_def isWhiteSpace_def)
  have ns: "c \<noteq> 45" "c \<noteq> 43" using c by (auto simp: isDigit_def)
  have pu: "parseUnsigned p = parseDigits 10 p"
  proof (cases cs)
    case Nil
    then show ?thesis using p by simp
  next
    case (Cons x rest)
    then have "isDigit x" using assms p by (auto simp: digits_def)
    then have "x \<noteq> 120" "x \<noteq> 88" by (auto simp: isDigit_def)
    then show ?thesis using p Cons by simp
  qed
  show ?thesis using p nw ns pu parseDigits_digits [OF assms] by (simp add: parseInt_def)
qed

lemma digit_sum_append: "digit_sum (a @ b) = digit_sum a + digit_sum b"
  by (simp add: digit_sum_def)

lemma digit_sum_plus: "digit_sum (43 # b) = digit_sum b"
  by (simp add: digit_sum_def isDigit_def)

lemma dval_snoc: "dval (p @ [c]) = dval p * 10 + (c - 48)"
  by (simp add: dval_def)

lemma digit_sum_snoc: "isDigit c \<Longrightarrow> digit_sum (p @ [c]) = digit_sum p + int (c - 48)"
  by (simp add: digit_sum_def)

lemma dval_zero: "\<forall>c\<in>set p. isDigit c \<Longrightarrow> dval p = 0 \<Longrightarrow> digit_sum p = 0"
proof (induction p rule: rev_induct)
  case Nil
  then show ?case by (simp add: digit_sum_def)
next
  case (snoc c p)
  then show ?case by (simp add: dval_snoc digit_sum_snoc)
qed

lemma dval_small: "\<forall>c\<in>set p. isDigit c \<Longrightarrow> dval p \<le> 9 \<Longrightarrow> digit_sum p = int (dval p)"
proof (induction p rule: rev_induct)
  case Nil
  then show ?case by (simp add: digit_sum_def dval_def)
next
  case (snoc c p)
  then have z: "dval p = 0" by (simp add: dval_snoc)
  then have "digit_sum p = 0" using snoc.prems dval_zero by simp
  then show ?case using snoc.prems z by (simp add: dval_snoc digit_sum_snoc)
qed

lemma valid_sum_digit_sum:
  assumes o: "valid (validateOpennum s)" and v: "valid (validateDataSum s n)"
  shows "digit_sum s = n"
proof -
  have m: "matches (three_groups (One (lit 43))) s"
    using o by (auto simp: validateOpennum_def valid_def split: if_splits)
  from three_groups_plus [OF m] obtain p1 p2 p3 where
    s: "s = p1 @ 43 # p2 @ 43 # p3" and d: "digits p1" "digits p2" "digits p3" by blast
  have nums: "map parseInt (split 43 s)
                = [Some (int (dval p1)), Some (int (dval p2)), Some (int (dval p3))]"
    using s d by (simp add: split_three parseInt_digits)
  have rng: "valid (validateNumbersRange (parseNumbersFromOpennum s) s)"
    using o m by (auto simp: validateOpennum_def valid_def Let_def split: if_splits)
  have le: "dval p1 \<le> 9" "dval p2 \<le> 9" "dval p3 \<le> 9"
    using rng nums
    by (auto simp: validateNumbersRange_def parseNumbersFromOpennum_def valid_def greater_def
             split: if_splits)
  have sum: "int (dval p1) + int (dval p2) + int (dval p3) = n"
    using v nums
    by (auto simp: validateDataSum_def parseOpennum_def validateSum_def add_def valid_def Let_def
             split: if_splits)
  have all: "\<forall>c\<in>set p1. isDigit c" "\<forall>c\<in>set p2. isDigit c" "\<forall>c\<in>set p3. isDigit c"
    using d by (auto simp: digits_def)
  have "digit_sum s = digit_sum p1 + digit_sum p2 + digit_sum p3"
    using s by (simp add: digit_sum_append digit_sum_plus)
  then show ?thesis using dval_small all le sum by simp
qed

lemma validateLotteryData_valid:
  "valid (fst (validateLotteryData l d)) =
     (valid (validateIssue (qihao d)) \<and> valid (validateOpennum (opennum d))
      \<and> valid (validateTime (opentime d)) \<and> valid (validateDataSum (opennum d) (sum_value d)))"
  by (auto simp: validateLotteryData_def Let_def valid_def)

text \<open>
  C5. \<open>validateLotteryData\<close> returns invalid for every raw draw whose declared sum differs
  from the digit sum of its numbers. For every raw draw that passes the issue, number, time
  and sum checks it returns valid, whatever the last-issue pointer \<open>l\<close> is: the
  non-regression check contributes the warning and nothing else.
\<close>

theorem validateLotteryData_sum_and_regression:
  "(digit_sum (opennum d) \<noteq> sum_value d \<longrightarrow> \<not> valid (fst (validateLotteryData l d)))
   \<and> (valid (validateIssue (qihao d)) \<and> valid (validateOpennum (opennum d))
      \<and> valid (validateTime (opentime d)) \<and> valid (validateDataSum (opennum d) (sum_value d))
      \<longrightarrow> validateLotteryData l d = (Valid, checkIssueIncrement l (qihao d)))"
proof (intro conjI impI)
  assume "digit_sum (opennum d) \<noteq> sum_value d"
  then show "\<not> valid (fst (validateLotteryData l d))"
    using valid_sum_digit_sum [of "opennum d" "sum_value d"]
    by (auto simp: validateLotteryData_valid)
next
  assume "valid (validateIssue (qihao d)) \<and> valid (validateOpennum (opennum d))
      \<and> valid (validateTime (opentime d)) \<and> valid (validateDataSum (opennum d) (sum_value d))"
  then show "validateLotteryData l d = (Valid, checkIssueIncrement l (qihao d))"
    by (simp add: validateLotteryData_def Let_def)
qed

lemmas validator_eval = str_def parseInt_def isWhiteSpace_def parseDigits_def radixDigit_def
  isDigit_def validateIssue_def validateOpennum_def validateTime_def validateDataSum_def
  parseOpennum_def validateSum_def add_def valid_def Let_def three_groups_def lit_def
  SHORT_FORMAT_def FULL_FORMAT_def DD_def validateNumbersRange_def parseNumbersFromOpennum_def
  greater_def digit_sum_def checkIssueIncrement_def isIssueIncreasing_def

text \<open>
  The third scenario (numbers 3+5+8 with the declared sum 15) is rejected; the same draw
  with the sum 16 is valid although its issue 2025001 is below the pointer 2025005, and
  the warning is written.
\<close>

theorem validateLotteryData_sum_and_regression_witness:
  "digit_sum (opennum (draw1 15)) \<noteq> sum_value (draw1 15)
   \<and> \<not> valid (fst (validateLotteryData None (draw1 15)))
   \<and> valid (validateIssue (qihao (draw1 16))) \<and> valid (validateOpennum (opennum (draw1 16)))
   \<and> valid (validateTime (opentime (draw1 16)))
   \<and> valid (validateDataSum (opennum (draw1 16)) (sum_value (draw1 16)))
   \<and> validateLotteryData (Some (str ''2025005'')) (draw1 16)
       = (Valid, [IssueNotIncreasing (str ''2025001'') (str ''2025005'')])"
proof -
  have a: "digit_sum (opennum (draw1 15)) \<noteq> sum_value (draw1 15)"
    by (simp add: draw1_def validator_eval)
  have b: "valid (validateIssue (qihao (draw1 16)))"
    by (simp add: draw1_def validator_eval numeral_eq_Suc)
  have c: "valid (validateOpennum (opennum (draw1 16)))" by (simp add: draw1_def validator_eval)
  have d: "valid (validateTime (opentime (draw1 16)))" by (simp add: draw1_def validator_eval)
  have e: "valid (validateDataSum (opennum (draw1 16)) (sum_value (draw1 16)))"
    by (simp add: draw1_def validator_eval)
  have f: "checkIssueIncrement (Some (str ''2025005'')) (qihao (draw1 16))
             = [IssueNotIncreasing (str ''2025001'') (str ''2025005'')]"
    by (simp add: draw1_def validator_eval)
  show ?thesis
    using validateLotteryData_sum_and_regression [of "draw1 15" None]
      validateLotteryData_sum_and_regression [of "draw1 16" "Some (str ''2025005'')"]
      a b c d e f by simp
qed

section \<open>Number normalization\<close>

lemma digit_facts:
  "isDigit a \<Longrightarrow> \<not> isWhiteSpace a" "isDigit a \<Longrightarrow> a \<noteq> 43" "isDigit a \<Longrightarrow> a \<noteq> 44"
  "isDigit a \<Longrightarrow> a \<noteq> 32"
  by (auto simp: isDigit_def isWhiteSpace_def)

lemma trim_digits_ends:
  "isDigit a \<Longrightarrow> isDigit c \<Longrightarrow> trim (a # m @ [c]) = a # m @ [c]"
  by (simp add: trim_def digit_facts)

lemmas normalize_eval = normalizeNumbers_def str_def trim_def isWhiteSpace_def three_groups_def
  lit_def isDigit_def replaceAll_def

text \<open>
  C7, as the code has it. For digits \<open>a\<close>, \<open>b\<close>, \<open>c\<close> the forms \<^verbatim>\<open>"a+b+c"\<close>, \<^verbatim>\<open>"a,b,c"\<close>,
  \<^verbatim>\<open>"a b c"\<close> and \<^verbatim>\<open>"abc"\<close> are normalized to \<^verbatim>\<open>"a+b+c"\<close>. The input \<^verbatim>\<open>"10+5+8"\<close> is
  returned as it is and \<^verbatim>\<open>"3-5-8"\<close> is normalized to \<^verbatim>\<open>"3+5+8"\<close>: neither is rejected here
  (the range of the numbers is checked later, by \<open>validateOpennum\<close>).
\<close>

theorem normalizeNumbers_forms:
  assumes "isDigit a" "isDigit b" "isDigit c"
  shows "normalizeNumbers [a, 43, b, 43, c] = Some [a, 43, b, 43, c]
       \<and> normalizeNumbers [a, 44, b, 44, c] = Some [a, 43, b, 43, c]
       \<and> normalizeNumbers [a, 32, b, 32, c] = Some [a, 43, b, 43, c]
       \<and> normalizeNumbers [a, b, c] = Some [a, 43, b, 43, c]
       \<and> normalizeNumbers (str ''10+5+8'') = Some (str ''10+5+8'')
       \<and> normalizeNumbers (str ''3-5-8'') = Some (str ''3+5+8'')"
proof -
  have t1: "trim [a, 43, b, 43, c] = [a, 43, b, 43, c]"
    using trim_digits_ends [OF assms(1,3), of "[43, b, 43]"] by simp
  have t2: "trim [a, 44, b, 44, c] = [a, 44, b, 44, c]"
    using trim_digits_ends [OF assms(1,3), of "[44, b, 44]"] by simp
  have t3: "trim [a, 32, b, 32, c] = [a, 32, b, 32, c]"
    using trim_digits_ends [OF assms(1,3), of "[32, b, 32]"] by simp
  have t4: "trim [a, b, c] = [a, b, c]"
    using trim_digits_ends [OF assms(1,3), of "[b]"] by simp
  have ws: "isWhiteSpace 32" "\<not> isDigit 43" "\<not> isDigit 44" "\<not> isDigit 32"
    by (simp_all add: isWhiteSpace_def isDigit_def)
  have 1: "normalizeNumbers [a, 43, b, 43, c] = Some [a, 43, b, 43, c]"
    unfolding normalizeNumbers_def t1 using assms ws by (simp add: three_groups_def lit_def)
  have 2: "normalizeNumbers [a, 44, b, 44, c] = Some [a, 43, b, 43, c]"
    unfolding normalizeNumbers_def t2 using assms ws
    by (simp add: three_groups_def lit_def replaceAll_def digit_facts)
  have 3: "normalizeNumbers [a, 32, b, 32, c] = Some [a, 43, b, 43, c]"
    unfolding normalizeNumbers_def t3 using assms ws
    by (simp add: three_groups_def lit_def digit_facts)
  have 4: "normalizeNumbers [a, b, c] = Some [a, 43, b, 43, c]"
    unfolding normalizeNumbers_def t4 using assms ws
    by (simp add: three_groups_def lit_def digit_facts)
  have 5: "normalizeNumbers (str ''10+5+8'') = Some (str ''10+5+8'')"
    by (simp add: normalize_eval)
  have 6: "normalizeNumbers (str ''3-5-8'') = Some (str ''3+5+8'')"
    by (simp add: normalize_eval)
  show ?thesis using 1 2 3 4 5 6 by simp
qed

theorem normalizeNumbers_forms_witness:
  "isDigit 51 \<and> isDigit 53 \<and> isDigit 56
   \<and> normalizeNumbers (str ''3+5+8'') = Some (str ''3+5+8'')
   \<and> normalizeNumbers (str ''3,5,8'') = Some (str ''3+5+8'')
   \<and> normalizeNumbers (str ''3 5 8'') = Some (str ''3+5+8'')
   \<and> normalizeNumbers (str ''358'') = Some (str ''3+5+8'')"
  using normalizeNumbers_forms [of 51 53 56] by (simp add: str_def isDigit_def)

text \<open>C7, as stated, fails: \<^verbatim>\<open>"10+5+8"\<close> is not rejected.\<close>

theorem normalizeNumbers_counterexample:
  "normalizeNumbers (str ''10+5+8'') \<noteq> None"
  by (simp add: normalize_eval)

section \<open>The keno parser\<close>










text \<open>
  A draw number that is an object with a property \<^verbatim>\<open>toString\<close> has the shape, and the
  parser ends in its handler.
\<close>

lemma parseKenoData_handler:
  "keno_shape (keno_draw (JObj [(str ''toString'', JNum 1)]) (replicate 20 (JNum 1)))
   \<and> parseKenoData (keno_draw (JObj [(str ''toString'', JNum 1)]) (replicate 20 (JNum 1))) = Null"
  by (simp add: parseKenoData_def keno_shape_def keno_draw_def getProp_def falsy_def str_def Let_def)

section \<open>The omission engine\<close>

lemma set_keys_assign: "set (map fst (assign k v t)) = insert k (set (map fst t))"
proof (induction t)
  case Nil
  show ?case by simp
next
  case (Cons a t)
  obtain k' v' where a: "a = (k', v')" by (cases a)
  show ?case
  proof (cases "k' = k")
    case True
    then show ?thesis using a by simp
  next
    case False
    then show ?thesis using a Cons by (simp add: insert_commute)
  qed
qed

lemma distinct_assign: "distinct (map fst t) \<Longrightarrow> distinct (map fst (assign k v t))"
proof (induction t)
  case Nil
  show ?case by simp
next
  case (Cons a t)
  obtain k' v' where a: "a = (k', v')" by (cases a)
  show ?case
  proof (cases "k' = k")
    case True
    then show ?thesis using a Cons.prems by simp
  next
    case False
    have "k' \<notin> set (map fst (assign k v t))"
      using False a Cons.prems by (simp only: set_keys_assign) simp
    then show ?thesis using False a Cons by simp
  qed
qed

lemma distinct_foldl_assign:
  "distinct (map fst t) \<Longrightarrow> distinct (map fst (foldl (\<lambda>t ty. assign ty (f ty) t) t tys))"
  by (induction tys arbitrary: t) (simp_all add: distinct_assign)

lemma distinct_initializeOmissionData:
  "distinct (map fst t) \<Longrightarrow> distinct (map fst (initializeOmissionData rows t))"
  by (simp add: initializeOmissionData_def Let_def distinct_foldl_assign)

lemma fst_omissionRule: "fst (omissionRule d x) = fst x"
  by (cases x) (simp add: omissionRule_def)

lemma keys_omissionRule: "map (fst \<circ> omissionRule d) t = map fst t"
  by (simp add: fst_omissionRule)

lemma map_of_omissionRule:
  "map_of (map (omissionRule d) t) c
     = map_option (\<lambda>n. if c \<in> set (collectHitTypes d) then 0 else n + 1) (map_of t c)"
  by (induction t) (auto simp: omissionRule_def)

lemma batchUpdateStats_self:
  assumes "distinct (map fst t)"
  shows "batchUpdateStats (map (omissionRule d) t) t = map (omissionRule d) t"
proof (cases "t = []")
  case True
  then show ?thesis by (simp add: batchUpdateStats_def)
next
  case False
  have "\<And>ty count. (ty, count) \<in> set t \<Longrightarrow>
          (if ty \<in> set (map fst (map (omissionRule d) t))
           then (ty, the (map_of (map (omissionRule d) t) ty)) else (ty, count))
          = omissionRule d (ty, count)"
  proof -
    fix ty count
    assume m: "(ty, count) \<in> set t"
    then have k: "ty \<in> set (map fst (map (omissionRule d) t))"
      by (force simp: keys_omissionRule)
    have "map_of t ty = Some count" using assms m by simp
    then have "map_of (map (omissionRule d) t) ty
                 = Some (if ty \<in> set (collectHitTypes d) then 0 else count + 1)"
      by (simp add: map_of_omissionRule)
    then show "(if ty \<in> set (map fst (map (omissionRule d) t))
           then (ty, the (map_of (map (omissionRule d) t) ty)) else (ty, count))
          = omissionRule d (ty, count)"
      using k by (simp add: omissionRule_def)
  qed
  then have "map (\<lambda>(ty, count).
                  if ty \<in> set (map fst (map (omissionRule d) t))
                  then (ty, the (map_of (map (omissionRule d) t) ty))
                  else (ty, count)) t = map (omissionRule d) t"
    by (intro map_cong) auto
  then show ?thesis using False by (simp add: batchUpdateStats_def)
qed

lemma updateOmissionData_rule:
  assumes "distinct (map fst t)"
  shows "updateOmissionData rows t d
           = map (omissionRule d) (if t = [] then initializeOmissionData rows t else t)"
proof -
  let ?t1 = "if t = [] then initializeOmissionData rows t else t"
  have d1: "distinct (map fst ?t1)"
    using assms by (simp add: distinct_initializeOmissionData)
  have "updateOmissionData rows t d = batchUpdateStats (map (omissionRule d) ?t1) ?t1"
    by (simp add: updateOmissionData_def Let_def omissionRule_def)
  then show ?thesis by (simp only: batchUpdateStats_self [OF d1])
qed

lemma draws_since_snoc:
  "draws_since c (ds @ [d])
     = (if c \<in> set (collectHitTypes d) then 0 else Suc (draws_since c ds))"
  by (simp add: draws_since_def)

lemma seq_snoc:
  "updateOmissionDataSeq t (cs @ [(rows, d)])
     = updateOmissionData rows (updateOmissionDataSeq t cs) d"
  by (simp add: updateOmissionDataSeq_def)

lemma seq_counter:
  assumes "distinct (map fst t)" "t \<noteq> []" "map_of t c = Some n"
  shows "distinct (map fst (updateOmissionDataSeq t cs))
       \<and> updateOmissionDataSeq t cs \<noteq> []
       \<and> map_of (updateOmissionDataSeq t cs) c
           = Some (if \<exists>x\<in>set cs. c \<in> set (collectHitTypes (snd x))
                   then int (draws_since c (map snd cs)) else n + int (length cs))"
proof (induction cs rule: rev_induct)
  case Nil
  then show ?case using assms by (simp add: updateOmissionDataSeq_def)
next
  case (snoc x cs)
  obtain rows d where x: "x = (rows, d)" by (cases x)
  let ?T = "updateOmissionDataSeq t cs"
  have T: "distinct (map fst ?T)" "?T \<noteq> []" using snoc by simp_all
  have u: "updateOmissionDataSeq t (cs @ [x]) = map (omissionRule d) ?T"
    using T by (simp add: x seq_snoc updateOmissionData_rule)
  show ?case
    using snoc T unfolding u
    by (auto simp: keys_omissionRule map_of_omissionRule draws_since_snoc x)
qed

lemma sum_bucket_hit: "padStart 2 48 (jsString (sum_value d)) \<in> set (collectHitTypes d)"
  by (simp add: collectHitTypes_def)

lemmas omission_eval = collectHitTypes_def draw1_enriched_def draw2_enriched_def pushed_def
  padStart_def jsString_def str_def

lemma distinct_table0: "distinct (map fst table0)"
  by (simp add: table0_def getAllStatTypes_def BASE_STAT_TYPES_def getSumValueTypes_def str_def
      padStart_def jsString_def comp_def upt_conv_Cons)

lemma map_of_assign: "map_of (assign k v t) c = (if c = k then Some v else map_of t c)"
  by (induction t) auto

lemma scan_step_key:
  assumes "idx \<noteq> - 1"
  shows "map_of (fst (foldl (\<lambda>(yilou, foundTypes) (k, held).
              if map_of yilou k = Some (- 1) \<and> held
              then (assign k idx yilou, List.insert k foundTypes)
              else (yilou, foundTypes)) (y, f) cs)) c
         = (if map_of y c = Some (- 1) \<and> (c, True) \<in> set cs then Some idx else map_of y c)"
  using assms
proof (induction cs arbitrary: y f)
  case Nil
  show ?case by simp
next
  case (Cons a cs)
  obtain k held where a: "a = (k, held)" by (cases a)
  show ?case
    using Cons.prems by (simp add: a Cons.IH map_of_assign)
qed

lemma pushed_mem: "(c \<in> set (pushed ps)) = (\<exists>k. (True, k) \<in> set ps \<and> c = str k)"
proof
  assume "c \<in> set (pushed ps)"
  then obtain x where x: "x \<in> set ps" "fst x" "c = (\<lambda>(flag, key). str key) x"
    unfolding pushed_def by auto
  obtain b k where bk: "x = (b, k)" by (cases x)
  show "\<exists>k. (True, k) \<in> set ps \<and> c = str k"
    using x bk by auto
next
  assume "\<exists>k. (True, k) \<in> set ps \<and> c = str k"
  then obtain k where k: "(True, k) \<in> set ps" "c = str k" by blast
  have "(True, k) \<in> set (filter fst ps)" using k by simp
  then have "(\<lambda>(flag, key). str key) (True, k) \<in> set (pushed ps)"
    unfolding pushed_def by (simp only: set_map image_eqI)
  then show "c \<in> set (pushed ps)" using k by simp
qed

lemma pushed_Nil: "pushed [] = []"
  by (simp add: pushed_def)

lemma pushed_Cons: "pushed ((b, k) # ps) = (if b then str k # pushed ps else pushed ps)"
  by (simp add: pushed_def)

lemma flags_mem:
  "((c, True) \<in> set (map (\<lambda>(b, key). (str key, b)) ps)) = (c \<in> set (pushed ps))"
proof (induction ps)
  case Nil
  show ?case by (simp add: pushed_Nil)
next
  case (Cons a ps)
  obtain b k where a: "a = (b, k)" by (cases a)
  show ?case using Cons by (cases b) (auto simp: a pushed_Cons)
qed

lemma checks_flags:
  "\<exists>L k. collectHitTypes r = pushed L @ [k]
         \<and> scanChecks r = (k, True) # map (\<lambda>(b, key). (str key, b)) L"
  unfolding collectHitTypes_def scanChecks_def
  apply (intro exI conjI)
   apply (rule refl)
  apply simp
  done

lemma checks_hit: "((c, True) \<in> set (scanChecks r)) = (c \<in> set (collectHitTypes r))"
proof -
  obtain L k where L: "collectHitTypes r = pushed L @ [k]"
    "scanChecks r = (k, True) # map (\<lambda>(b, key). (str key, b)) L"
    using checks_flags [of r] by blast
  have "((c, True) \<in> set (scanChecks r))
          = (c = k \<or> (c, True) \<in> set (map (\<lambda>(b, key). (str key, b)) L))"
    unfolding L by simp
  also have "\<dots> = (c \<in> set (collectHitTypes r))"
    unfolding L flags_mem by auto
  finally show ?thesis .
qed

lemma scanRecord_key:
  assumes "0 \<le> idx"
  shows "map_of (fst (scanRecord idx r st)) c
           = (if map_of (fst st) c = Some (- 1) \<and> c \<in> set (collectHitTypes r)
              then Some idx else map_of (fst st) c)"
proof -
  obtain y f where st: "st = (y, f)" by (cases st)
  have i: "idx \<noteq> - 1" using assms by simp
  show ?thesis
    unfolding scanRecord_def st using scan_step_key [OF i, of y f "scanChecks r" c]
    by (simp add: checks_hit)
qed


lemma scanBatch_from:
  "map_of (fst (foldl (\<lambda>s (i, r). scanRecord (int (offset + i)) r s) st
                  (zip [k..<k + length batch] batch))) c
     = (if map_of (fst st) c = Some (- 1)
           \<and> length (takeWhile (\<lambda>r. c \<notin> set (collectHitTypes r)) batch) < length batch
        then Some (int (offset + k + length (takeWhile (\<lambda>r. c \<notin> set (collectHitTypes r)) batch)))
        else map_of (fst st) c)"
proof (induction batch arbitrary: k st)
  case Nil
  show ?case by simp
next
  case (Cons r rs)
  have z: "zip [k..<k + length (r # rs)] (r # rs) = (k, r) # zip [Suc k..<Suc k + length rs] rs"
  proof -
    have "[k..<k + length (r # rs)] = k # [Suc k..<Suc k + length rs]"
      by (subst upt_conv_Cons) simp_all
    then show ?thesis by (simp only: zip_Cons_Cons)
  qed
  let ?s1 = "scanRecord (int (offset + k)) r st"
  have sr: "map_of (fst ?s1) c
              = (if map_of (fst st) c = Some (- 1) \<and> c \<in> set (collectHitTypes r)
                 then Some (int (offset + k)) else map_of (fst st) c)"
    by (rule scanRecord_key) simp
  have ih: "map_of (fst (foldl (\<lambda>s (i, r). scanRecord (int (offset + i)) r s) ?s1
                  (zip [Suc k..<Suc k + length rs] rs))) c
     = (if map_of (fst ?s1) c = Some (- 1)
           \<and> length (takeWhile (\<lambda>r. c \<notin> set (collectHitTypes r)) rs) < length rs
        then Some (int (offset + Suc k + length (takeWhile (\<lambda>r. c \<notin> set (collectHitTypes r)) rs)))
        else map_of (fst ?s1) c)"
    by (rule Cons.IH)
  show ?case
    unfolding z foldl_Cons prod.case ih sr
    by (cases "c \<in> set (collectHitTypes r)") simp_all
qed

lemma scanBatch_key:
  "map_of (fst (scanBatch offset batch st)) c
     = (if map_of (fst st) c = Some (- 1)
           \<and> length (takeWhile (\<lambda>r. c \<notin> set (collectHitTypes r)) batch) < length batch
        then Some (int (offset + length (takeWhile (\<lambda>r. c \<notin> set (collectHitTypes r)) batch)))
        else map_of (fst st) c)"
  unfolding scanBatch_def using scanBatch_from [of offset st 0 batch c] by simp

lemma scanFrom_one_batch:
  assumes "rows \<noteq> []" "length rows \<le> BATCH_SIZE" "length (snd st) < length getAllStatTypes"
  shows "scanFrom rows 0 st = (length rows, scanBatch 0 rows st)"
proof -
  have t: "take BATCH_SIZE (drop 0 rows) = rows" using assms(2) by simp
  have e: "take BATCH_SIZE (drop (length rows) rows) = []" by simp
  have m: "0 < MAX_RECORDS" by (simp add: MAX_RECORDS_def)
  have n: "scanFrom rows (length rows) (scanBatch 0 rows st) = (length rows, scanBatch 0 rows st)"
    by (subst scanFrom.simps) (simp add: e del: scanFrom.simps)
  show ?thesis
    by (subst scanFrom.simps) (simp add: t n m assms del: scanFrom.simps)
qed


lemma keys_foldl_assign:
  "set (map fst (foldl (\<lambda>st t. assign t (f t) st) s ts)) = set (map fst s) \<union> set ts"
  by (induction ts arbitrary: s) (auto simp: set_keys_assign simp del: set_map)

lemma keys_createEmptyStatObject: "set (map fst createEmptyStatObject) = set getAllStatTypes"
  unfolding createEmptyStatObject_def getAllStatTypes_def keys_foldl_assign by simp

lemma map_of_unfound:
  "map_of (map (\<lambda>(k, v). (k, - 1 :: int)) t) c = (if c \<in> set (map fst t) then Some (- 1) else None)"
  by (induction t) auto

lemma map_of_fill:
  assumes "v \<noteq> - 1"
  shows "map_of (foldl (\<lambda>y t. if map_of y t = Some (- 1) then assign t v y else y) y ts) c
           = (if c \<in> set ts \<and> map_of y c = Some (- 1) then Some v else map_of y c)"
  using assms by (induction ts arbitrary: y) (auto simp: map_of_assign)

lemma map_of_foldl_assign:
  "map_of (foldl (\<lambda>t ty. assign ty (f ty) t) t tys) c
     = (if c \<in> set tys then Some (f c) else map_of t c)"
  by (induction tys arbitrary: t) (auto simp: map_of_assign)

lemma types_nonempty: "0 < length getAllStatTypes"
  by (simp add: getAllStatTypes_def BASE_STAT_TYPES_def)

lemma calculateYilouDynamic_key:
  assumes "rows \<noteq> []" "length rows \<le> BATCH_SIZE" "c \<in> set getAllStatTypes"
  shows "map_of (calculateYilouDynamic rows) c
           = Some (int (length (takeWhile (\<lambda>r. c \<notin> set (collectHitTypes r)) rows)))"
proof -
  let ?unfound = "map (\<lambda>(k, v). (k, - 1 :: int)) createEmptyStatObject"
  let ?n = "length (takeWhile (\<lambda>r. c \<notin> set (collectHitTypes r)) rows)"
  have s: "scanFrom rows 0 (?unfound, []) = (length rows, scanBatch 0 rows (?unfound, []))"
    using assms(1,2) types_nonempty by (intro scanFrom_one_batch) simp_all
  have u: "map_of ?unfound c = Some (- 1)"
    using assms(3) by (simp only: map_of_unfound keys_createEmptyStatObject) simp
  have y: "map_of (fst (scanBatch 0 rows (?unfound, []))) c
             = (if ?n < length rows then Some (int ?n) else Some (- 1))"
    using u by (simp add: scanBatch_key)
  have le: "?n \<le> length rows" by (rule length_takeWhile_le)
  obtain yilou found where b: "scanBatch 0 rows (?unfound, []) = (yilou, found)"
    by (cases "scanBatch 0 rows (?unfound, [])")
  have y': "map_of yilou c = (if ?n < length rows then Some (int ?n) else Some (- 1))"
    using y b by simp
  have "calculateYilouDynamic rows
          = foldl (\<lambda>y t. if map_of y t = Some (- 1) then assign t (int (length rows)) y else y)
              yilou getAllStatTypes"
    unfolding calculateYilouDynamic_def Let_def s b by simp
  then show ?thesis
    using assms(3) y' le by (simp add: map_of_fill)
qed

lemma initialized_key:
  assumes "rows \<noteq> []" "length rows \<le> BATCH_SIZE" "c \<in> set getAllStatTypes"
  shows "map_of (initializeOmissionData rows []) c
           = Some (int (length (takeWhile (\<lambda>r. c \<notin> set (collectHitTypes r)) rows)))"
  unfolding initializeOmissionData_def Let_def map_of_foldl_assign
  using assms by (simp add: calculateYilouDynamic_key orZero_def)

lemma first_call_key:
  assumes "ds \<noteq> []" "length ds \<le> BATCH_SIZE" "c \<in> set getAllStatTypes"
  shows "map_of (updateOmissionData (rev ds) [] (last ds)) c
           = Some (if c \<in> set (collectHitTypes (last ds)) then 0 else int (draws_since c ds) + 1)"
proof -
  have r: "rev ds \<noteq> []" "length (rev ds) \<le> BATCH_SIZE" using assms by simp_all
  have u: "updateOmissionData (rev ds) [] (last ds)
             = map (omissionRule (last ds)) (initializeOmissionData (rev ds) [])"
    using updateOmissionData_rule [of "[]" "rev ds" "last ds"] by simp
  show ?thesis
    unfolding u map_of_omissionRule initialized_key [OF r assms(3)]
    by (simp add: draws_since_def)
qed

lemma draws_since_never:
  assumes "\<forall>x\<in>set ds. c \<notin> set (collectHitTypes x)"
  shows "draws_since c ds = length ds"
proof -
  have "\<And>x. x \<in> set (rev ds) \<Longrightarrow> c \<notin> set (collectHitTypes x)" using assms by simp
  then have tw: "takeWhile (\<lambda>d. c \<notin> set (collectHitTypes d)) (rev ds) = rev ds"
    by (intro takeWhile_eq_all_conv [THEN iffD2]) blast
  show ?thesis unfolding draws_since_def tw by simp
qed

lemma map_of_zeros: "map_of (map (\<lambda>k. (k, 0 :: int)) ks) c = (if c \<in> set ks then Some 0 else None)"
  by (induction ks) auto

lemma map_of_table0: "map_of table0 c = (if c \<in> set getAllStatTypes then Some 0 else None)"
  unfolding table0_def by (rule map_of_zeros)

lemma populated_key:
  assumes "c \<in> set getAllStatTypes"
  shows "map_of (updateOmissionDataSeq table0 cs) c = Some (int (draws_since c (map snd cs)))"
proof -
  have ne: "table0 \<noteq> []" using assms by (auto simp: table0_def)
  have m: "map_of table0 c = Some 0" using assms by (simp add: map_of_table0)
  have s: "map_of (updateOmissionDataSeq table0 cs) c
           = Some (if \<exists>x\<in>set cs. c \<in> set (collectHitTypes (snd x))
                   then int (draws_since c (map snd cs)) else 0 + int (length cs))"
    using seq_counter [OF distinct_table0 ne m, of cs] by blast
  show ?thesis
  proof (cases "\<exists>x\<in>set cs. c \<in> set (collectHitTypes (snd x))")
    case True
    then show ?thesis using s by simp
  next
    case False
    then have "\<forall>x\<in>set (map snd cs). c \<notin> set (collectHitTypes x)" by simp
    then have "draws_since c (map snd cs) = length cs"
      using draws_since_never [of "map snd cs" c] by simp
    then show ?thesis using s False by simp
  qed
qed


text \<open>
  C2. One application of the omission engine to a committed draw sets the counter of every
  type \<open>c\<close> to 0 if \<open>c\<close> is in the hit set of the draw and to the previous count plus
  one otherwise; the hit set is computed from the enriched fields and always has the
  two-digit sum bucket. Over a sequence of committed draws the counter of \<open>c\<close> is then the
  number of draws since \<open>c\<close> last held, or the number of draws if it never held. The engine
  does so on a table that holds its counters, and from the 49 zero counters of the
  migration it keeps the number of draws since each of the types last held. On its first
  call with an empty table it does not: it initializes the counters from the draw store,
  which the writer has already given the applied draw, and applies the rule for that draw
  again. For a store \<open>ds\<close> (oldest first, one batch of the scan at most) the counter of a
  type that the applied draw does not hold is one more than the number of draws since the
  type last held.
\<close>

theorem omission_first_call_counts_twice:
  fixes rows :: "'a LotteryData_scheme list" and d :: "'a LotteryData_scheme"
    and cs :: "('a LotteryData_scheme list \<times> 'a LotteryData_scheme) list"
    and ds :: "'a LotteryData_scheme list"
  assumes "c \<in> set getAllStatTypes"
  shows "(t \<noteq> [] \<and> distinct (map fst t)
            \<longrightarrow> updateOmissionData rows t d
                  = map (\<lambda>(c, n). (c, if c \<in> set (collectHitTypes d) then 0 else n + 1)) t)
       \<and> padStart 2 48 (jsString (sum_value d)) \<in> set (collectHitTypes d)
       \<and> map_of (updateOmissionDataSeq table0 cs) c = Some (int (draws_since c (map snd cs)))
       \<and> (ds \<noteq> [] \<and> length ds \<le> BATCH_SIZE
            \<longrightarrow> map_of (updateOmissionData (rev ds) [] (last ds)) c
                  = Some (if c \<in> set (collectHitTypes (last ds)) then 0
                          else int (draws_since c ds) + 1))"
proof -
  have 1: "t \<noteq> [] \<and> distinct (map fst t)
            \<longrightarrow> updateOmissionData rows t d
                  = map (\<lambda>(c, n). (c, if c \<in> set (collectHitTypes d) then 0 else n + 1)) t"
    using updateOmissionData_rule [of t rows d] by (simp add: omissionRule_def)
  show ?thesis
    using 1 sum_bucket_hit [of d] populated_key [OF assms, of cs] first_call_key [of ds c] assms
    by blast
qed

text \<open>
  The draws 3+5+8 and 1+2+3. "Big" held in the first only: one draw later its counter is 1
  from the zero counters and 2 on a first call with the empty table. "Small" did not hold
  in the first draw: after that draw alone its counter is 1 from the zero counters and 2 on
  a first call with the empty table.
\<close>

theorem omission_first_call_counts_twice_witness:
  "str ''da'' \<in> set getAllStatTypes \<and> str ''xiao'' \<in> set getAllStatTypes
   \<and> updateOmissionData [draw1_enriched] table0 draw1_enriched
       = map (\<lambda>(c, n). (c, if c \<in> set (collectHitTypes draw1_enriched) then 0 else n + 1)) table0
   \<and> str ''16'' \<in> set (collectHitTypes draw1_enriched)
   \<and> draws_since (str ''da'') [draw1_enriched, draw2_enriched] = 1
   \<and> map_of (updateOmissionDataSeq table0
               [([draw1_enriched], draw1_enriched),
                ([draw2_enriched, draw1_enriched], draw2_enriched)]) (str ''da'') = Some 1
   \<and> map_of (updateOmissionData [draw2_enriched, draw1_enriched] [] draw2_enriched) (str ''da'')
       = Some 2
   \<and> draws_since (str ''xiao'') [draw1_enriched] = 1
   \<and> map_of (updateOmissionDataSeq table0 [([draw1_enriched], draw1_enriched)]) (str ''xiao'')
       = Some 1
   \<and> map_of (updateOmissionData [draw1_enriched] [] draw1_enriched) (str ''xiao'') = Some 2"
proof -
  let ?cs = "[([draw1_enriched], draw1_enriched),
              ([draw2_enriched, draw1_enriched], draw2_enriched)]"
  let ?ds = "[draw1_enriched, draw2_enriched]"
  have m: "str ''da'' \<in> set getAllStatTypes" "str ''xiao'' \<in> set getAllStatTypes"
    by (simp_all add: getAllStatTypes_def BASE_STAT_TYPES_def)
  have ne: "table0 \<noteq> []"
    by (simp add: table0_def getAllStatTypes_def BASE_STAT_TYPES_def)
  have b: "padStart 2 48 (jsString (sum_value draw1_enriched)) = str ''16''"
    by (simp add: omission_eval)
  have h: "str ''da'' \<in> set (collectHitTypes draw1_enriched)"
    "str ''da'' \<notin> set (collectHitTypes draw2_enriched)"
    "str ''xiao'' \<notin> set (collectHitTypes draw1_enriched)"
    by (simp_all add: omission_eval)
  have s: "draws_since (str ''da'') ?ds = 1" "draws_since (str ''xiao'') [draw1_enriched] = 1"
    using h by (simp_all add: draws_since_def)
  have l: "?ds \<noteq> [] \<and> length ?ds \<le> BATCH_SIZE"
    "[draw1_enriched] \<noteq> [] \<and> length [draw1_enriched] \<le> BATCH_SIZE"
    by (simp_all add: BATCH_SIZE_def)
  have r1: "updateOmissionData [draw1_enriched] table0 draw1_enriched
       = map (\<lambda>(c, n). (c, if c \<in> set (collectHitTypes draw1_enriched) then 0 else n + 1)) table0
     \<and> str ''16'' \<in> set (collectHitTypes draw1_enriched)
     \<and> map_of (updateOmissionDataSeq table0 ?cs) (str ''da'') = Some 1
     \<and> map_of (updateOmissionData [draw2_enriched, draw1_enriched] [] draw2_enriched) (str ''da'')
         = Some 2"
    using omission_first_call_counts_twice [OF m(1), of table0 "[draw1_enriched]" draw1_enriched ?cs ?ds]
      ne distinct_table0 b h s l by simp
  have r2: "map_of (updateOmissionDataSeq table0 [([draw1_enriched], draw1_enriched)]) (str ''xiao'')
       = Some 1
     \<and> map_of (updateOmissionData [draw1_enriched] [] draw1_enriched) (str ''xiao'') = Some 2"
    using omission_first_call_counts_twice [OF m(2), of table0 "[draw1_enriched]" draw1_enriched
        "[([draw1_enriched], draw1_enriched)]" "[draw1_enriched]"]
      h s l by simp
  show ?thesis
    using r1 r2 m s by blast
qed

section \<open>The writer\<close>

lemma valid_enriches:
  assumes "valid (fst (validateLotteryData l d))"
  shows "\<exists>e. enrich d = Some e \<and> qihao e = qihao d"
proof -
  have o: "valid (validateOpennum (opennum d))"
    using assms by (simp add: validateLotteryData_valid)
  have m: "matches (three_groups (One (lit 43))) (opennum d)"
    using o by (auto simp: validateOpennum_def valid_def split: if_splits)
  from three_groups_plus [OF m] obtain p1 p2 p3 where
    s: "opennum d = p1 @ 43 # p2 @ 43 # p3" and g: "digits p1" "digits p2" "digits p3" by blast
  have "map parseInt (split 43 (opennum d))
          = [Some (int (dval p1)), Some (int (dval p2)), Some (int (dval p3))]"
    using s g by (simp add: split_three parseInt_digits)
  then have "all_numbers (map parseInt (split 43 (opennum d)))
               = Some [int (dval p1), int (dval p2), int (dval p3)]"
    by (simp add: all_numbers_def)
  then show ?thesis
    by (simp add: enrich_def analyzeFullLotteryData_def Let_def enrichedData_def)
qed

lemma enrich_qihao: "enrich d = Some e \<Longrightarrow> qihao e = qihao d"
  by (auto simp: enrich_def enrichedData_def)

lemma assign_has_entry: "(k, v) \<in> set (assign k v t)"
  by (induction t) auto

lemma assign_has_key: "k \<in> fst ` set (assign k v t)"
  using assign_has_entry [of k v t] by force

lemma marked_locally: "issue \<in> fst ` set (localProcessedCache (markProcessed r now issue dd))"
  by (cases r) (simp_all add: markProcessed_def Let_def markProcessedLocally_def assign_has_key)

lemma attempt_p2002:
  assumes "fn 1 = Raised e" "err_code e = Some (str ''P2002'')"
  shows "retryAsync fn 3 = Inl e"
proof -
  have "\<not> defaultShouldRetry e"
    using assms(2) by (simp add: defaultShouldRetry_def codeIn_def)
  then show ?thesis using assms(1) by (simp add: retryAsync_def)
qed

lemma writeToDatabase_p2002:
  assumes "upsert_attempt ev 1 = Raised e" "err_code e = Some (str ''P2002'')"
  shows "writeToDatabase ev en rows = (None, rows)"
  using attempt_p2002 [of "upsert_attempt ev" e] assms by (simp add: writeToDatabase_def Let_def)

lemma upsert_present:
  "list_ex (\<lambda>r. qihao r = key) rows \<Longrightarrow> upsert key create (\<lambda>r. r) rows = rows"
  by (simp add: upsert_def map_idI)

lemma writeToDatabase_present:
  "list_ex (\<lambda>r. qihao r = qihao en) rows \<Longrightarrow> snd (writeToDatabase ev en rows) = rows"
  by (auto simp: writeToDatabase_def Let_def upsert_present split: sum.splits)

lemma finalize_draws: "draws (finalizeProcessing ev en s) = draws s"
  by (simp add: finalizeProcessing_def Let_def)

lemma processDataWithLock_draws:
  assumes "list_ex (\<lambda>r. qihao r = qihao d) (draws s)"
  shows "draws (snd (processDataWithLock ev d s)) = draws s"
proof -
  have w: "\<And>en rows. enrich d = Some en \<Longrightarrow> snd (writeToDatabase ev en (draws s)) = draws s"
    using assms by (simp add: writeToDatabase_present enrich_qihao)
  show ?thesis
    using w
    by (auto simp: processDataWithLock_def Let_def finalize_draws
             split: prod.splits ValidationResult.splits option.splits)
qed

lemma processLotteryData_draws:
  assumes "list_ex (\<lambda>r. qihao r = qihao d) (draws s)"
  shows "draws (snd (processLotteryData ev d s)) = draws s"
proof -
  have p: "\<And>s' r s''. draws s' = draws s \<Longrightarrow> processDataWithLock ev d s' = (r, s'')
             \<Longrightarrow> draws s'' = draws s"
  proof -
    fix s' r s''
    assume a: "draws s' = draws s" "processDataWithLock ev d s' = (r, s'')"
    have "draws (snd (processDataWithLock ev d s')) = draws s'"
      using assms a(1) by (intro processDataWithLock_draws) simp
    then show "draws s'' = draws s" using a by simp
  qed
  show ?thesis
    by (auto simp: processLotteryData_def Let_def handleProcessingError_def
             split: prod.splits option.splits dest: p [rotated])
qed


lemma writeToDatabase_dup:
  assumes "retryAsync (upsert_attempt ev) 3 = Inl e" "err_code e = Some (str ''P2002'')"
  shows "writeToDatabase ev en rows = (None, rows)"
  using assms by (simp add: writeToDatabase_def Let_def)

lemma finalize_effects:
  "qihao en \<in> fst ` set (localProcessedCache (dedup (finalizeProcessing ev en s)))
   \<and> (redis_mark ev = Up \<longrightarrow> qihao en \<in> set (redisSeen (dedup (finalizeProcessing ev en s))))
   \<and> lastIssueLocal (dedup (finalizeProcessing ev en s)) = Some (qihao en)
   \<and> (redis_setLast ev = Up \<longrightarrow> redisLastIssue (dedup (finalizeProcessing ev en s)) = Some (qihao en))
   \<and> tracker (finalizeProcessing ev en s) = updateLatestIssue (qihao en) (tracker s)
   \<and> emitted (finalizeProcessing ev en s) = emitted s @ [en]"
proof -
  have 1: "qihao en \<in> fst ` set (localProcessedCache
              (setLastIssue (redis_setLast ev) (qihao en)
                 (markProcessed (redis_mark ev) (clock ev) (qihao en) (dedup s))))"
    using marked_locally [of "qihao en" "redis_mark ev" "clock ev" "dedup s"]
    by (cases "redis_setLast ev") (simp_all add: setLastIssue_def Let_def)
  have 2: "redis_mark ev = Up \<longrightarrow> qihao en \<in> set (redisSeen
              (setLastIssue (redis_setLast ev) (qihao en)
                 (markProcessed (redis_mark ev) (clock ev) (qihao en) (dedup s))))"
    by (cases "redis_setLast ev") (simp_all add: setLastIssue_def markProcessed_def Let_def)
  have 3: "lastIssueLocal (setLastIssue (redis_setLast ev) (qihao en) dd) = Some (qihao en)" for dd
    by (cases "redis_setLast ev") (simp_all add: setLastIssue_def Let_def)
  have 4: "redis_setLast ev = Up \<longrightarrow>
             redisLastIssue (setLastIssue (redis_setLast ev) (qihao en) dd) = Some (qihao en)" for dd
    by (simp add: setLastIssue_def Let_def)
  show ?thesis using 1 2 3 4 by (simp add: finalizeProcessing_def Let_def)
qed

lemma processDataWithLock_dup:
  assumes w: "retryAsync (upsert_attempt ev) 3 = Inl e" "err_code e = Some (str ''P2002'')"
    and v: "valid (fst (validateLotteryData None d))"
    and n: "\<not> fst (isProcessed (redis_recheck ev) (clock ev) (qihao d) (dedup s))"
  shows "\<exists>en s'. enrich d = Some en \<and> processDataWithLock ev d s = (None, s')
           \<and> qihao d \<in> fst ` set (localProcessedCache (dedup s'))
           \<and> (redis_mark ev = Up \<longrightarrow> qihao d \<in> set (redisSeen (dedup s')))
           \<and> lastIssueLocal (dedup s') = Some (qihao d)
           \<and> (redis_setLast ev = Up \<longrightarrow> redisLastIssue (dedup s') = Some (qihao d))
           \<and> tracker s' = updateLatestIssue (qihao d) (tracker s)
           \<and> emitted s' = emitted s @ [en]"
proof -
  from valid_enriches [OF v] obtain en where en: "enrich d = Some en" "qihao en = qihao d"
    by blast
  obtain seen dd1 where i: "isProcessed (redis_recheck ev) (clock ev) (qihao d) (dedup s) = (seen, dd1)"
    by (cases "isProcessed (redis_recheck ev) (clock ev) (qihao d) (dedup s)")
  have ns: "\<not> seen" using n i by simp
  obtain lastIssue dd2 where g: "getLastIssue (redis_getLast ev) dd1 = (lastIssue, dd2)"
    by (cases "getLastIssue (redis_getLast ev) dd1")
  have "valid (fst (validateLotteryData lastIssue d))"
    using v by (simp add: validateLotteryData_valid)
  then have vl: "fst (validateLotteryData lastIssue d) = Valid"
    by (simp add: valid_def)
  let ?s2 = "s\<lparr> dedup := dd2 \<rparr>"
  let ?s4 = "if omission_raises ev then ?s2
             else ?s2\<lparr> omission := updateOmissionData (omission_rows ev) (omission ?s2) en \<rparr>"
  have r: "processDataWithLock ev d s = (None, finalizeProcessing ev en ?s4)"
    using i ns g vl v en(1) writeToDatabase_dup [OF w, of en "draws s"]
    by (simp add: processDataWithLock_def Let_def)
  have t: "tracker ?s4 = tracker s" "emitted ?s4 = emitted s" by simp_all
  show ?thesis
    using r en finalize_effects [of en ev ?s4] t by (intro exI [of _ en] exI [of _ "finalizeProcessing ev en ?s4"]) simp
qed

lemma processLotteryData_dup:
  assumes w: "retryAsync (upsert_attempt ev) 3 = Inl e" "err_code e = Some (str ''P2002'')"
    and v: "valid (fst (validateLotteryData None d))"
  shows "fst (processLotteryData ev d s) = None"
proof -
  have p: "fst (processDataWithLock ev d s') = None" for s'
  proof (cases "fst (isProcessed (redis_recheck ev) (clock ev) (qihao d) (dedup s'))")
    case True
    then obtain dd1 where
      "isProcessed (redis_recheck ev) (clock ev) (qihao d) (dedup s') = (True, dd1)"
      by (cases "isProcessed (redis_recheck ev) (clock ev) (qihao d) (dedup s')") auto
    then show ?thesis
      by (simp add: processDataWithLock_def Let_def)
  next
    case False
    from processDataWithLock_dup [OF w v False] show ?thesis by auto
  qed
  have q: "\<And>s' r s''. processDataWithLock ev d s' = (r, s'') \<Longrightarrow> r = None"
    using p by (metis fst_conv)
  show ?thesis
    by (auto simp: processLotteryData_def Let_def split: prod.splits option.splits dest: q)
qed

text \<open>
  C4. When the upsert of the draw, under its retries, throws an error with the code P2002,
  \<open>writeToDatabase\<close> raises nothing and leaves the store as it is. Processing goes on: for
  a draw that passes validation and is not yet marked, \<open>processDataWithLock\<close> completes
  without an error, the issue is marked in the seen-set (the local cache, and Redis when it
  is up), the last-issue pointer is the issue, the tracker has been updated with the issue
  and the event with the enriched draw has been emitted. \<open>processLotteryData\<close> returns
  to its caller without an error.
\<close>

theorem duplicate_write_is_success:
  assumes "retryAsync (upsert_attempt ev) 3 = Inl e" and "err_code e = Some (str ''P2002'')"
  shows "writeToDatabase ev en rows = (None, rows)
       \<and> (valid (fst (validateLotteryData None d))
            \<and> \<not> fst (isProcessed (redis_recheck ev) (clock ev) (qihao d) (dedup s))
          \<longrightarrow> (\<exists>en s'. enrich d = Some en \<and> processDataWithLock ev d s = (None, s')
                 \<and> qihao d \<in> fst ` set (localProcessedCache (dedup s'))
                 \<and> (redis_mark ev = Up \<longrightarrow> qihao d \<in> set (redisSeen (dedup s')))
                 \<and> lastIssueLocal (dedup s') = Some (qihao d)
                 \<and> (redis_setLast ev = Up \<longrightarrow> redisLastIssue (dedup s') = Some (qihao d))
                 \<and> tracker s' = updateLatestIssue (qihao d) (tracker s)
                 \<and> emitted s' = emitted s @ [en]))
       \<and> (valid (fst (validateLotteryData None d)) \<longrightarrow> fst (processLotteryData ev d s) = None)"
  using writeToDatabase_dup [OF assms, of en rows] processDataWithLock_dup [OF assms, of d s]
    processLotteryData_dup [OF assms, of d s]
  by blast

lemma valid_draw1: "valid (fst (validateLotteryData None (draw1 16)))"
proof -
  have b: "valid (validateIssue (qihao (draw1 16)))"
    by (simp add: draw1_def validator_eval numeral_eq_Suc)
  have c: "valid (validateOpennum (opennum (draw1 16)))" by (simp add: draw1_def validator_eval)
  have d: "valid (validateTime (opentime (draw1 16)))" by (simp add: draw1_def validator_eval)
  have e: "valid (validateDataSum (opennum (draw1 16)) (sum_value (draw1 16)))"
    by (simp add: draw1_def validator_eval)
  show ?thesis using b c d e by (simp only: validateLotteryData_valid)
qed

lemma retry_dup: "retryAsync (upsert_attempt env_dup) 3 = Inl dup_error"
  by (simp add: retryAsync_def env_dup_def dup_error_def defaultShouldRetry_def codeIn_def)

lemma enrich_draw1: "enrich (draw1 16) = Some draw1_enriched"
  by (simp add: enrich_def draw1_def draw1_enriched_def analyzeFullLotteryData_def all_numbers_def
      str_def parseInt_def isWhiteSpace_def parseDigits_def radixDigit_def isDigit_def
      enrichedData_def analyzeSumValue_def analyzePattern_def analyzeLongHuHe_def Let_def
      jsRem_def at_def greater_def succeeds_def collectStatTypes_def)

theorem duplicate_write_is_success_witness:
  "retryAsync (upsert_attempt env_dup) 3 = Inl dup_error
   \<and> err_code dup_error = Some (str ''P2002'')
   \<and> valid (fst (validateLotteryData None (draw1 16)))
   \<and> \<not> fst (isProcessed (redis_recheck env_dup) (clock env_dup) (qihao (draw1 16)) (dedup state0))
   \<and> redis_mark env_dup = Up \<and> redis_setLast env_dup = Up
   \<and> writeToDatabase env_dup draw1_enriched [] = (None, [])
   \<and> (\<exists>s'. processDataWithLock env_dup (draw1 16) state0 = (None, s')
          \<and> str ''2025001'' \<in> fst ` set (localProcessedCache (dedup s'))
          \<and> str ''2025001'' \<in> set (redisSeen (dedup s'))
          \<and> lastIssueLocal (dedup s') = Some (str ''2025001'')
          \<and> redisLastIssue (dedup s') = Some (str ''2025001'')
          \<and> tracker s' = \<lparr> latestIssue = str ''2025001'', isInitialized = True \<rparr>
          \<and> emitted s' = [draw1_enriched])
   \<and> fst (processLotteryData env_dup (draw1 16) state0) = None"
proof -
  have c: "err_code dup_error = Some (str ''P2002'')" by (simp add: dup_error_def)
  have n: "\<not> fst (isProcessed (redis_recheck env_dup) (clock env_dup) (qihao (draw1 16)) (dedup state0))"
    by (simp add: isProcessed_def env_dup_def state0_def Let_def)
  have u: "redis_mark env_dup = Up" "redis_setLast env_dup = Up" by (simp_all add: env_dup_def)
  have q: "qihao (draw1 16) = str ''2025001''" by (simp add: draw1_def)
  have m: "emitted state0 = []" by (simp add: state0_def)
  have t: "updateLatestIssue (str ''2025001'') (tracker state0)
             = \<lparr> latestIssue = str ''2025001'', isInitialized = True \<rparr>"
    by (simp add: updateLatestIssue_def state0_def parse_eval)
  show ?thesis
    using duplicate_write_is_success [OF retry_dup c, of draw1_enriched "[]" "draw1 16" state0]
      retry_dup c valid_draw1 n u q m t enrich_draw1
    by auto
qed

text \<open>
  C9. When the draw store has a row for an issue, \<open>writeToDatabase\<close> of any payload with
  that issue leaves the store as it is, whatever the store answers: the \<^verbatim>\<open>update\<close> clause of
  the upsert is empty, so no column of the row (numbers, sum, source, derived fields, time
  stamps) is written. The same holds for a whole run of \<open>processLotteryData\<close> on a raw
  draw with that issue.
\<close>

theorem upsert_never_overwrites:
  "(list_ex (\<lambda>r. qihao r = qihao en) rows \<longrightarrow> snd (writeToDatabase ev en rows) = rows)
   \<and> (list_ex (\<lambda>r. qihao r = qihao d) (draws s)
        \<longrightarrow> draws (snd (processLotteryData ev d s)) = draws s)"
  using writeToDatabase_present [of en rows ev] processLotteryData_draws [of d s ev]
  by blast

text \<open>
  The store holds the issue 2025001 from the source S0; the draw of the source S1 with the
  same issue is written with a store that accepts the upsert, and the row stays.
\<close>

theorem upsert_never_overwrites_witness:
  "list_ex (\<lambda>r. qihao r = qihao draw1_enriched) [row0]
   \<and> snd (writeToDatabase env_ok draw1_enriched [row0]) = [row0]
   \<and> list_ex (\<lambda>r. qihao r = qihao (draw1 16)) (draws (state0\<lparr> draws := [row0] \<rparr>))
   \<and> draws (snd (processLotteryData env_ok (draw1 16) (state0\<lparr> draws := [row0] \<rparr>))) = [row0]"
proof -
  have a: "list_ex (\<lambda>r. qihao r = qihao draw1_enriched) [row0]"
    by (simp add: row0_def draw1_enriched_def LotteryData.extend_def)
  have b: "list_ex (\<lambda>r. qihao r = qihao (draw1 16)) (draws (state0\<lparr> draws := [row0] \<rparr>))"
    by (simp add: row0_def draw1_enriched_def draw1_def LotteryData.extend_def)
  show ?thesis
    using upsert_never_overwrites
        [of draw1_enriched "[row0]" env_ok "draw1 16" "state0\<lparr> draws := [row0] \<rparr>"] a b
    by simp
qed

end
